theory Spec2Isabelle
  imports Complex_Main "HOL-Library.Sublist"
begin

section \<open>Strings and arrays as the program uses them\<close>

text \<open>
  A string of the program is the list of its code units; \<open>length\<close> is the program's
  \<open>.length\<close>.  The code units of the model are 8-bit.  Numbers that the program uses as
  counts, sizes and offsets are integers of unbounded size (\<open>int\<close>); thresholds and
  quality scores are real numbers; vector components and similarity scores are numbers of
  JavaScript with its infinities and \<open>NaN\<close>, see below.
\<close>

abbreviation NL :: char where
  "NL \<equiv> CHR 0x0A"

text \<open>The characters matched by \<open>\s\<close> and removed by \<open>trim()\<close>: tab, line feed,
  vertical tab, form feed, carriage return, space, no-break space.\<close>

definition isSpace :: "char \<Rightarrow> bool" where
  "isSpace c \<longleftrightarrow> c \<in> set [CHR 0x09, CHR 0x0A, CHR 0x0B, CHR 0x0C, CHR 0x0D, CHR 0x20, CHR 0xA0]"

definition trim :: "string \<Rightarrow> string" where
  "trim s = rev (dropWhile isSpace (rev (dropWhile isSpace s)))"

text \<open>\<open>Array.prototype.slice\<close> and \<open>String.prototype.slice\<close>: a negative index counts
  from the end, every index is clamped to the range of the array.\<close>

definition relIndex :: "nat \<Rightarrow> int \<Rightarrow> nat" where
  "relIndex n k = (if k < 0 then nat (max (int n + k) 0) else min (nat k) n)"

definition slice :: "'a list \<Rightarrow> int \<Rightarrow> int \<Rightarrow> 'a list" where
  "slice xs s e =
     (let from = relIndex (length xs) s; to = relIndex (length xs) e
      in take (to - from) (drop from xs))"

definition sliceFrom :: "'a list \<Rightarrow> int \<Rightarrow> 'a list" where
  "sliceFrom xs s = drop (relIndex (length xs) s) xs"

fun join :: "string \<Rightarrow> string list \<Rightarrow> string" where
  "join sep [] = []"
| "join sep [x] = x"
| "join sep (x # y # ys) = x @ sep @ join sep (y # ys)"

text \<open>\<open>s.split(/[class]+/)\<close> for a character class: the pieces between the maximal runs
  of characters of the class; a run at the start or at the end of the string leaves an
  empty piece there, and the empty string gives one empty piece.\<close>

fun splitRuns :: "(char \<Rightarrow> bool) \<Rightarrow> bool \<Rightarrow> string \<Rightarrow> string \<Rightarrow> string list" where
  "splitRuns P inRun cur [] = [cur]"
| "splitRuns P inRun cur (c # cs) =
     (if P c then (if inRun then splitRuns P True cur cs else cur # splitRuns P True [] cs)
      else splitRuns P False (cur @ [c]) cs)"

definition splitWhitespace :: "string \<Rightarrow> string list" where
  "splitWhitespace text = splitRuns isSpace False [] text"

text \<open>\<open>text.split(/\n\n+/)\<close>: the separators are the maximal runs of two or more line
  feeds.  The first argument counts the line feeds read since the last other character
  (2 stands for two or more).\<close>

fun splitParagraphs :: "nat \<Rightarrow> string \<Rightarrow> string \<Rightarrow> string list" where
  "splitParagraphs k cur [] = (if k = 1 then [cur @ [NL]] else [cur])"
| "splitParagraphs k cur (c # cs) =
     (if c = NL then
        (if k = 0 then splitParagraphs 1 cur cs
         else if k = 1 then cur # splitParagraphs 2 [] cs
         else splitParagraphs 2 cur cs)
      else splitParagraphs 0 (if k = 1 then cur @ [NL, c] else cur @ [c]) cs)"

text \<open>\<open>text.split(/(?<=[.!?])\s+/)\<close>: the separators are the maximal runs of white space
  that directly follow a full stop, an exclamation mark or a question mark.\<close>

definition isTerminal :: "char \<Rightarrow> bool" where
  "isTerminal c \<longleftrightarrow> c \<in> set [CHR ''.'', CHR ''!'', CHR ''?'']"

fun splitSentences :: "bool \<Rightarrow> string \<Rightarrow> string \<Rightarrow> string list" where
  "splitSentences inRun cur [] = [cur]"
| "splitSentences inRun cur (c # cs) =
     (if isSpace c \<and> inRun then splitSentences True cur cs
      else if isSpace c \<and> cur \<noteq> [] \<and> isTerminal (last cur) then cur # splitSentences True [] cs
      else splitSentences False (cur @ [c]) cs)"

section \<open>Numbers of the program\<close>

text \<open>
  A vector component or a score is a number of JavaScript: a finite value, one of the two
  infinities, or \<open>NaN\<close>.  The model keeps a finite result of an operation exactly: the
  rounding of the program is not modelled, and zero has no sign (a zero divisor counts as
  positive).  A result outside the range of the finite numbers becomes an infinity, as in
  the program.
\<close>

datatype JSNum = Fin real | PosInf | NegInf | NaN

text \<open>A real number of at least this magnitude rounds to an infinity: the midpoint of the
  largest finite number, \<open>2^1024 - 2^971\<close>, and \<open>2^1024\<close>.\<close>

definition maxFinite :: real where
  "maxFinite = 2 ^ 1024 - 2 ^ 970"

definition fin :: "real \<Rightarrow> JSNum" where
  "fin x = (if x \<ge> maxFinite then PosInf else if x \<le> - maxFinite then NegInf else Fin x)"

fun jsNeg :: "JSNum \<Rightarrow> JSNum" where
  "jsNeg (Fin a) = Fin (- a)"
| "jsNeg PosInf = NegInf"
| "jsNeg NegInf = PosInf"
| "jsNeg NaN = NaN"

text \<open>\<open>x + y\<close>\<close>

fun jsAdd :: "JSNum \<Rightarrow> JSNum \<Rightarrow> JSNum" where
  "jsAdd (Fin a) (Fin b) = fin (a + b)"
| "jsAdd NaN y = NaN"
| "jsAdd x NaN = NaN"
| "jsAdd PosInf NegInf = NaN"
| "jsAdd NegInf PosInf = NaN"
| "jsAdd PosInf y = PosInf"
| "jsAdd x PosInf = PosInf"
| "jsAdd NegInf y = NegInf"
| "jsAdd x NegInf = NegInf"

text \<open>\<open>x - y\<close>\<close>

definition jsSub :: "JSNum \<Rightarrow> JSNum \<Rightarrow> JSNum" where
  "jsSub x y = jsAdd x (jsNeg y)"

text \<open>\<open>x * y\<close>: an infinity times zero is \<open>NaN\<close>.\<close>

fun jsMul :: "JSNum \<Rightarrow> JSNum \<Rightarrow> JSNum" where
  "jsMul (Fin a) (Fin b) = fin (a * b)"
| "jsMul NaN y = NaN"
| "jsMul x NaN = NaN"
| "jsMul (Fin a) y = (if a = 0 then NaN else if a > 0 then y else jsNeg y)"
| "jsMul x (Fin b) = (if b = 0 then NaN else if b > 0 then x else jsNeg x)"
| "jsMul PosInf y = y"
| "jsMul NegInf y = jsNeg y"

text \<open>\<open>x / y\<close>: zero by zero and an infinity by an infinity are \<open>NaN\<close>, another number
  by zero is an infinity.\<close>

fun jsDiv :: "JSNum \<Rightarrow> JSNum \<Rightarrow> JSNum" where
  "jsDiv (Fin a) (Fin b) =
     (if b = 0 then (if a = 0 then NaN else if a > 0 then PosInf else NegInf) else fin (a / b))"
| "jsDiv NaN y = NaN"
| "jsDiv x NaN = NaN"
| "jsDiv (Fin a) y = Fin 0"
| "jsDiv x (Fin b) = (if b \<ge> 0 then x else jsNeg x)"
| "jsDiv x y = NaN"

text \<open>\<open>Math.sqrt(x)\<close>\<close>

fun jsSqrt :: "JSNum \<Rightarrow> JSNum" where
  "jsSqrt (Fin a) = (if a < 0 then NaN else Fin (sqrt a))"
| "jsSqrt PosInf = PosInf"
| "jsSqrt NegInf = NaN"
| "jsSqrt NaN = NaN"

text \<open>\<open>x >= y\<close>: false when one of the two is \<open>NaN\<close>.\<close>

fun jsGe :: "JSNum \<Rightarrow> JSNum \<Rightarrow> bool" where
  "jsGe NaN y = False"
| "jsGe x NaN = False"
| "jsGe (Fin a) (Fin b) = (a \<ge> b)"
| "jsGe PosInf y = True"
| "jsGe x NegInf = True"
| "jsGe x y = False"

text \<open>\<open>x < 0\<close>\<close>

fun jsNegative :: "JSNum \<Rightarrow> bool" where
  "jsNegative (Fin a) = (a < 0)"
| "jsNegative NegInf = True"
| "jsNegative x = False"

text \<open>\<open>x || 0\<close> on a number that may be absent: zero and \<open>NaN\<close> are falsy.\<close>

definition orZero :: "JSNum option \<Rightarrow> JSNum" where
  "orZero x = (case x of None \<Rightarrow> Fin 0 | Some s \<Rightarrow> if s = NaN then Fin 0 else s)"

section \<open>Text chunking\<close>

datatype Strategy = Fixed | Semantic | Paragraph | Sentence

record ChunkOptions =
  strategy :: Strategy
  chunkSize :: int
  chunkOverlap :: int
  minChunkSize :: int

record TextChunk =
  content :: string
  index :: nat
  startChar :: int
  endChar :: int

definition mkChunk :: "string \<Rightarrow> nat \<Rightarrow> int \<Rightarrow> int \<Rightarrow> TextChunk" where
  "mkChunk c i s e = \<lparr>content = c, index = i, startChar = s, endChar = e\<rparr>"

subsection \<open>The merge pass\<close>

text \<open>The body of the branch \<open>current.content.length < minSize\<close> of \<open>mergeSmallChunks\<close>:
  the chunk \<open>current\<close> takes the text and the end offset of \<open>next\<close>.\<close>

definition absorb :: "TextChunk \<Rightarrow> TextChunk \<Rightarrow> TextChunk" where
  "absorb current next =
     current\<lparr>content := content current @ [NL, NL] @ content next, endChar := endChar next\<rparr>"

definition small :: "int \<Rightarrow> TextChunk \<Rightarrow> bool" where
  "small minSize c \<longleftrightarrow> int (length (content c)) < minSize"

text \<open>The \<open>for\<close> loop of \<open>mergeSmallChunks\<close> over \<open>chunks[1..]\<close>, with its variables
  \<open>current\<close> and \<open>merged\<close>, followed by the last \<open>merged.push(current)\<close>.\<close>

fun mergeLoop :: "int \<Rightarrow> TextChunk \<Rightarrow> TextChunk list \<Rightarrow> TextChunk list \<Rightarrow> TextChunk list" where
  "mergeLoop minSize current merged [] = merged @ [current]"
| "mergeLoop minSize current merged (next # rest) =
     (if small minSize current
      then mergeLoop minSize (absorb current next) merged rest
      else mergeLoop minSize next (merged @ [current]) rest)"

definition mergeSmallChunks :: "TextChunk list \<Rightarrow> int \<Rightarrow> TextChunk list" where
  "mergeSmallChunks chunks minSize =
     (case chunks of
        [] \<Rightarrow> chunks
      | [c] \<Rightarrow> chunks
      | c # rest \<Rightarrow> mergeLoop minSize c [] rest)"

subsection \<open>Fixed-size chunking\<close>

text \<open>The \<open>while\<close> loop of \<open>chunkByFixedSize\<close>.  When \<open>chunkSize = chunkOverlap\<close> the
  variable \<open>start\<close> never advances and the loop does not return: the value is \<open>None\<close>.\<close>

partial_function (option) fixedLoop ::
  "string list \<Rightarrow> int \<Rightarrow> int \<Rightarrow> int \<Rightarrow> nat \<Rightarrow> TextChunk list \<Rightarrow> TextChunk list option" where
  "fixedLoop words csize coverlap start idx chunks =
     (if start < int (length words) then
        (let e = min (start + csize) (int (length words));
             c = join '' '' (slice words start e);
             beforeText = int (length (join '' '' (slice words 0 start)));
             beforeSpaces = start;
             chunks' = chunks @ [mkChunk c idx (beforeText + beforeSpaces)
                                   (beforeText + beforeSpaces + int (length c))]
         in if e - start < coverlap \<or> e \<ge> int (length words) then Some chunks'
            else fixedLoop words csize coverlap (start + (csize - coverlap)) (idx + 1) chunks')
      else Some chunks)"

declare fixedLoop.simps [code]

definition chunkByFixedSize :: "string \<Rightarrow> ChunkOptions \<Rightarrow> TextChunk list option" where
  "chunkByFixedSize text options =
     map_option (\<lambda>chunks. mergeSmallChunks chunks (minChunkSize options))
       (fixedLoop (splitWhitespace text) (chunkSize options) (chunkOverlap options) 0 0 [])"

subsection \<open>Sentence and paragraph chunking\<close>

text \<open>\<open>if (currentChunk.trim()) chunks.push({content: currentChunk.trim(), index: index++,
  startChar: currentStart, endChar: currentStart + currentChunk.length})\<close>, as it
  occurs in both strategies: the chunk list and the counter after it.\<close>

definition pushCurrent :: "string \<Rightarrow> int \<Rightarrow> nat \<Rightarrow> TextChunk list \<Rightarrow> TextChunk list \<times> nat" where
  "pushCurrent currentChunk currentStart idx chunks =
     (if trim currentChunk \<noteq> []
      then (chunks @ [mkChunk (trim currentChunk) idx currentStart
                        (currentStart + int (length currentChunk))], idx + 1)
      else (chunks, idx))"

text \<open>The sub-chunks of an oversized piece are appended with fresh indices and with
  their offsets shifted by \<open>currentStart\<close>.\<close>

fun pushSubChunks :: "int \<Rightarrow> nat \<Rightarrow> TextChunk list \<Rightarrow> TextChunk list \<Rightarrow> TextChunk list \<times> nat" where
  "pushSubChunks currentStart idx chunks [] = (chunks, idx)"
| "pushSubChunks currentStart idx chunks (sub # subs) =
     pushSubChunks currentStart (idx + 1)
       (chunks @ [sub\<lparr>index := idx, startChar := currentStart + startChar sub,
                        endChar := currentStart + endChar sub\<rparr>]) subs"

text \<open>\<open>chunks[chunks.length - 1]?.endChar || currentStart\<close>\<close>

definition lastEndOr :: "TextChunk list \<Rightarrow> int \<Rightarrow> int" where
  "lastEndOr chunks currentStart =
     (if chunks = [] \<or> endChar (last chunks) = 0 then currentStart else endChar (last chunks))"

text \<open>The \<open>for\<close> loop of \<open>chunkBySentence\<close> over the sentences, with its variables
  \<open>currentChunk\<close>, \<open>currentStart\<close>, \<open>index\<close> and \<open>chunks\<close>.\<close>

fun sentenceLoop ::
  "ChunkOptions \<Rightarrow> string list \<Rightarrow> string \<Rightarrow> int \<Rightarrow> nat \<Rightarrow> TextChunk list
     \<Rightarrow> (string \<times> int \<times> nat \<times> TextChunk list) option" where
  "sentenceLoop options [] currentChunk currentStart idx chunks =
     Some (currentChunk, currentStart, idx, chunks)"
| "sentenceLoop options (s # rest) currentChunk currentStart idx chunks =
     (let sentence = trim s in
      if sentence = [] then sentenceLoop options rest currentChunk currentStart idx chunks
      else if int (length sentence) > chunkSize options then
        (let (chunks1, idx1) = pushCurrent currentChunk currentStart idx chunks in
         case chunkByFixedSize sentence (options\<lparr>chunkSize := chunkSize options div 2\<rparr>) of
           None \<Rightarrow> None
         | Some subChunks \<Rightarrow>
             (let (chunks2, idx2) = pushSubChunks currentStart idx1 chunks1 subChunks
              in sentenceLoop options rest currentChunk (lastEndOr chunks2 currentStart) idx2 chunks2))
      else if int (length currentChunk) + int (length sentence) > chunkSize options
              \<and> trim currentChunk \<noteq> [] then
        (let (chunks1, idx1) = pushCurrent currentChunk currentStart idx chunks;
             overlapStart = max 0 (int (length currentChunk) - chunkOverlap options);
             currentChunk1 = sliceFrom currentChunk overlapStart;
             currentStart1 = currentStart + (if overlapStart > 0 then chunkOverlap options else 0)
         in sentenceLoop options rest
              (currentChunk1 @ (if currentChunk1 \<noteq> [] then ''. '' else []) @ sentence)
              currentStart1 idx1 chunks1)
      else sentenceLoop options rest
             (currentChunk @ (if currentChunk \<noteq> [] then ''. '' else []) @ sentence)
             currentStart idx chunks)"

definition chunkBySentence :: "string \<Rightarrow> ChunkOptions \<Rightarrow> TextChunk list option" where
  "chunkBySentence text options =
     (case sentenceLoop options (splitSentences False [] text) [] 0 0 [] of
        None \<Rightarrow> None
      | Some (currentChunk, currentStart, idx, chunks) \<Rightarrow>
          Some (mergeSmallChunks (fst (pushCurrent currentChunk currentStart idx chunks))
                  (minChunkSize options)))"

text \<open>The \<open>for\<close> loop of \<open>chunkByParagraph\<close> over the paragraphs.\<close>

fun paragraphLoop ::
  "ChunkOptions \<Rightarrow> string list \<Rightarrow> string \<Rightarrow> int \<Rightarrow> nat \<Rightarrow> TextChunk list
     \<Rightarrow> (string \<times> int \<times> nat \<times> TextChunk list) option" where
  "paragraphLoop options [] currentChunk currentStart idx chunks =
     Some (currentChunk, currentStart, idx, chunks)"
| "paragraphLoop options (paragraph # rest) currentChunk currentStart idx chunks =
     (let trimmed = trim paragraph in
      if trimmed = [] then paragraphLoop options rest currentChunk currentStart idx chunks
      else if int (length trimmed) > chunkSize options then
        (let (chunks1, idx1) = pushCurrent currentChunk currentStart idx chunks;
             currentChunk1 = (if trim currentChunk \<noteq> [] then [] else currentChunk) in
         case chunkBySentence trimmed (options\<lparr>chunkSize := chunkSize options div 2\<rparr>) of
           None \<Rightarrow> None
         | Some subChunks \<Rightarrow>
             (let (chunks2, idx2) = pushSubChunks currentStart idx1 chunks1 subChunks
              in paragraphLoop options rest currentChunk1 (lastEndOr chunks2 currentStart) idx2 chunks2))
      else if int (length currentChunk) + int (length trimmed) > chunkSize options
              \<and> trim currentChunk \<noteq> [] then
        (let (chunks1, idx1) = pushCurrent currentChunk currentStart idx chunks;
             overlapText = sliceFrom currentChunk (- chunkOverlap options);
             currentChunk1 = overlapText @ [NL, NL] @ trimmed;
             currentStart1 = currentStart + int (length currentChunk1) - int (length trimmed)
                               - int (length overlapText)
         in paragraphLoop options rest currentChunk1 currentStart1 idx1 chunks1)
      else paragraphLoop options rest
             (currentChunk @ (if currentChunk \<noteq> [] then [NL, NL] else []) @ trimmed)
             currentStart idx chunks)"

definition chunkByParagraph :: "string \<Rightarrow> ChunkOptions \<Rightarrow> TextChunk list option" where
  "chunkByParagraph text options =
     (case paragraphLoop options (splitParagraphs 0 [] text) [] 0 0 [] of
        None \<Rightarrow> None
      | Some (currentChunk, currentStart, idx, chunks) \<Rightarrow>
          Some (mergeSmallChunks (fst (pushCurrent currentChunk currentStart idx chunks))
                  (minChunkSize options)))"

subsection \<open>Semantic chunking\<close>

text \<open>The loop of \<open>chunkBySemantic\<close> that packs the paragraphs; \<open>i\<close> is the position of
  the paragraph in \<open>paragraphs\<close>.\<close>

fun semanticLoop ::
  "int \<Rightarrow> string list \<Rightarrow> string list \<Rightarrow> nat \<Rightarrow> string \<Rightarrow> int \<Rightarrow> nat \<Rightarrow> TextChunk list
     \<Rightarrow> string \<times> int \<times> nat \<times> TextChunk list" where
  "semanticLoop csize paragraphs [] i currentChunk currentStart idx chunks =
     (currentChunk, currentStart, idx, chunks)"
| "semanticLoop csize paragraphs (p # rest) i currentChunk currentStart idx chunks =
     (let paragraph = trim p;
          flush = (int (length currentChunk) + int (length paragraph) > csize \<and> currentChunk \<noteq> []);
          chunks1 = (if flush
                     then chunks @ [mkChunk (trim currentChunk) idx currentStart
                                      (currentStart + int (length currentChunk))]
                     else chunks);
          idx1 = (if flush then idx + 1 else idx);
          currentChunk1 = (if flush then [] else currentChunk);
          currentStart1 = (if flush then 0 else currentStart);
          currentChunk2 = currentChunk1 @ (if currentChunk1 \<noteq> [] then [NL, NL] else []) @ paragraph;
          currentStart2 = (if currentStart1 = 0
                           then int (length (join [NL, NL] (take i paragraphs)))
                                  + (if i > 0 then 2 else 0)
                           else currentStart1)
      in semanticLoop csize paragraphs rest (i + 1) currentChunk2 currentStart2 idx1 chunks1)"

text \<open>\<open>Promise.all\<close> over the embedding calls.  Every call is made.  When all of them
  return, the value is the list of their vectors.  Otherwise \<open>Promise.all\<close> rejects with
  the exception of the call that fails first in time: one of the exceptions of the list
  \<open>Inl\<close>, which has them in the order of the paragraphs.\<close>

fun embedAll ::
  "(string \<Rightarrow> string + JSNum list) \<Rightarrow> string list \<Rightarrow> string list + JSNum list list" where
  "embedAll getEmbedding [] = Inr []"
| "embedAll getEmbedding (p # ps) =
     (case (getEmbedding p, embedAll getEmbedding ps) of
        (Inl err, Inl errs) \<Rightarrow> Inl (err # errs)
      | (Inl err, Inr vs) \<Rightarrow> Inl [err]
      | (Inr v, Inl errs) \<Rightarrow> Inl errs
      | (Inr v, Inr vs) \<Rightarrow> Inr (v # vs))"

text \<open>\<open>chunkBySemantic\<close>.  The boundaries that it computes from the similarity of
  neighbouring paragraphs are not read by the loop that builds the chunks; the embedding
  calls matter for their exceptions only.  \<open>Inl\<close> is a call that is rejected, with the
  exceptions of \<open>embedAll\<close>.\<close>

definition chunkBySemantic ::
  "string \<Rightarrow> ChunkOptions \<Rightarrow> (string \<Rightarrow> string + JSNum list)
     \<Rightarrow> (string list + TextChunk list) option" where
  "chunkBySemantic text options getEmbedding =
     (let paragraphs = filter (\<lambda>p. trim p \<noteq> []) (splitParagraphs 0 [] text) in
      if length paragraphs = 0 then map_option Inr (chunkByFixedSize text options)
      else
        case embedAll getEmbedding (map trim paragraphs) of
          Inl err \<Rightarrow> Some (Inl err)
        | Inr embeddings \<Rightarrow>
            (case semanticLoop (chunkSize options) paragraphs paragraphs 0 [] 0 0 [] of
               (currentChunk, currentStart, idx, chunks) \<Rightarrow>
                 Some (Inr (mergeSmallChunks
                              (fst (pushCurrent currentChunk currentStart idx chunks))
                              (minChunkSize options)))))"

subsection \<open>The entry point\<close>

text \<open>The options of \<open>chunkText\<close> are all optional; \<open>x || d\<close> takes the default
  \<open>d\<close> when \<open>x\<close> is absent or zero.\<close>

record PartialChunkOptions =
  p_strategy :: "Strategy option"
  p_chunkSize :: "int option"
  p_chunkOverlap :: "int option"
  p_minChunkSize :: "int option"

definition orNum :: "int option \<Rightarrow> int \<Rightarrow> int" where
  "orNum x d = (case x of None \<Rightarrow> d | Some v \<Rightarrow> if v = 0 then d else v)"

definition chunkConfig :: "PartialChunkOptions \<Rightarrow> ChunkOptions" where
  "chunkConfig options =
     \<lparr>strategy = (case p_strategy options of None \<Rightarrow> Paragraph | Some s \<Rightarrow> s),
      chunkSize = orNum (p_chunkSize options) 1000,
      chunkOverlap = orNum (p_chunkOverlap options) 200,
      minChunkSize = orNum (p_minChunkSize options) 100\<rparr>"

definition chunkText :: "string \<Rightarrow> PartialChunkOptions \<Rightarrow> TextChunk list option" where
  "chunkText text options =
     (let config = chunkConfig options in
      case strategy config of
        Fixed \<Rightarrow> chunkByFixedSize text config
      | Paragraph \<Rightarrow> chunkByParagraph text config
      | Sentence \<Rightarrow> chunkBySentence text config
      | Semantic \<Rightarrow> chunkByParagraph text config)"

text \<open>Every chunk but the last one has at least \<open>m\<close> code units of content.\<close>

definition restAtLeast :: "int \<Rightarrow> TextChunk list \<Rightarrow> bool" where
  "restAtLeast m out \<longleftrightarrow> (\<forall>i. Suc i < length out \<longrightarrow> m \<le> int (length (content (out ! i))))"

section \<open>Context truncation\<close>

text \<open>\<open>s.lastIndexOf(c)\<close> for a single character: the position of its last occurrence,
  \<open>-1\<close> when there is none.\<close>

fun lastIndexOf :: "string \<Rightarrow> char \<Rightarrow> int" where
  "lastIndexOf [] c = - 1"
| "lastIndexOf (x # xs) c =
     (let r = lastIndexOf xs c in if r \<ge> 0 then r + 1 else if x = c then 0 else - 1)"

text \<open>\<open>truncateContext\<close>.  The comparison \<open>cutoff > maxChars * 0.8\<close> is taken over
  the real numbers.\<close>

definition truncateContext :: "string \<Rightarrow> int \<Rightarrow> string" where
  "truncateContext context maxTokens =
     (let maxChars = maxTokens * 4 in
      if int (length context) \<le> maxChars then context
      else
        (let truncated = slice context 0 maxChars;
             lastPeriod = lastIndexOf truncated (CHR ''.'');
             lastNewline = lastIndexOf truncated NL;
             cutoff = max lastPeriod lastNewline
         in if real_of_int cutoff > real_of_int maxChars * 0.8
            then slice truncated 0 (cutoff + 1)
            else truncated @ ''...''))"

text \<open>The characters at which \<open>truncateContext\<close> prefers to cut: the full stop and the
  line feed.\<close>

definition isBoundary :: "char \<Rightarrow> bool" where
  "isBoundary c \<longleftrightarrow> c = CHR ''.'' \<or> c = NL"

text \<open>\<open>lastBoundary t b k\<close>: among the first \<open>b\<close> characters of \<open>t\<close>, the last full
  stop or line feed is at position \<open>k\<close>.\<close>

definition lastBoundary :: "string \<Rightarrow> nat \<Rightarrow> nat \<Rightarrow> bool" where
  "lastBoundary t b k \<longleftrightarrow>
     k < b \<and> k < length t \<and> isBoundary (t ! k) \<and> (\<forall>j. k < j \<and> j < b \<and> j < length t \<longrightarrow> \<not> isBoundary (t ! j))"

text \<open>\<open>Math.max(lastPeriod, lastNewline)\<close> on a string.\<close>

definition cutoffOf :: "string \<Rightarrow> int" where
  "cutoffOf s = max (lastIndexOf s (CHR ''.'')) (lastIndexOf s NL)"

section \<open>The internal vector store\<close>

text \<open>
  The metadata of a chunk is a JSON object; the model keeps the keys that the program
  reads or writes.  An absent key is \<open>None\<close>.  The program reads the key
  \<open>embeddingVector\<close> from the stored JSON without a check, so its value is any JSON
  value.  An element of an array enters the computation only as a factor of a product,
  which converts it to a number first.  The model keeps for an element the number that it
  converts to (the element itself when it is a number, 0 for \<open>null\<close>, \<open>NaN\<close> for a text
  that is no numeral), or the fact that the conversion throws (an object whose \<open>valueOf\<close>
  and \<open>toString\<close> are both hidden by keys of its own).  An object is the list of its keys
  with their values, every key once.
\<close>

datatype Element = Number JSNum | Unconvertible

datatype JsonValue =
    JNull
  | JBool bool
  | JNumber JSNum
  | JString string
  | JArray "Element list"
  | JObject "(string \<times> JsonValue) list"

datatype Exception = TypeError

record Metadata =
  md_startChar :: "int option"
  md_endChar :: "int option"
  md_qualityScore :: "real option"
  md_documentName :: "string option"
  md_embeddingVector :: "JsonValue option"

record VectorRecord =
  vr_id :: string
  vr_documentId :: string
  vr_chunkIndex :: nat
  vr_content :: string
  vr_embedding :: "JSNum list"
  vr_metadata :: "Metadata option"

datatype Status = PENDING | PROCESSING | COMPLETED | FAILED

text \<open>The rows of the tables \<open>chunk\<close> and \<open>document\<close> behind the Prisma client, with the
  columns that the program reads or writes.\<close>

record ChunkRow =
  row_id :: string
  row_documentId :: string
  row_chunkIndex :: nat
  row_content :: string
  row_startChar :: "int option"
  row_endChar :: "int option"
  row_qualityScore :: "real option"
  row_metadata :: "Metadata option"

record DocumentRow =
  doc_id :: string
  doc_name :: string
  doc_userId :: string
  doc_content :: string
  doc_status :: Status
  doc_embeddingStatus :: Status
  doc_chunksCount :: nat

record Database =
  db_chunks :: "ChunkRow list"
  db_documents :: "DocumentRow list"

text \<open>\<open>record.metadata?.key\<close>\<close>

definition mdGet :: "(Metadata \<Rightarrow> 'a option) \<Rightarrow> Metadata option \<Rightarrow> 'a option" where
  "mdGet key md = (case md of None \<Rightarrow> None | Some m \<Rightarrow> key m)"

text \<open>\<open>prisma.chunk.upsert\<close> as \<open>InternalVectorStore.upsert\<close> calls it: a row with the id
  of the record gets the columns of the \<open>update\<close> part, otherwise a row with the columns of
  the \<open>create\<close> part is added.  Neither part mentions \<open>record.embedding\<close>.  A value that
  is \<open>undefined\<close> leaves the column empty in the \<open>create\<close> part and as it is in the
  \<open>update\<close> part.\<close>

definition createRow :: "VectorRecord \<Rightarrow> ChunkRow" where
  "createRow r =
     \<lparr>row_id = vr_id r, row_documentId = vr_documentId r, row_chunkIndex = vr_chunkIndex r,
      row_content = vr_content r,
      row_startChar = mdGet md_startChar (vr_metadata r),
      row_endChar = mdGet md_endChar (vr_metadata r),
      row_qualityScore = mdGet md_qualityScore (vr_metadata r),
      row_metadata = vr_metadata r\<rparr>"

definition orKeep :: "'a option \<Rightarrow> 'a option \<Rightarrow> 'a option" where
  "orKeep new old = (case new of None \<Rightarrow> old | Some v \<Rightarrow> Some v)"

definition updateRow :: "VectorRecord \<Rightarrow> ChunkRow \<Rightarrow> ChunkRow" where
  "updateRow r row =
     row\<lparr>row_content := vr_content r, row_chunkIndex := vr_chunkIndex r,
         row_startChar := orKeep (mdGet md_startChar (vr_metadata r)) (row_startChar row),
         row_endChar := orKeep (mdGet md_endChar (vr_metadata r)) (row_endChar row),
         row_qualityScore := orKeep (mdGet md_qualityScore (vr_metadata r)) (row_qualityScore row),
         row_metadata := orKeep (vr_metadata r) (row_metadata row)\<rparr>"

definition upsertChunk :: "VectorRecord \<Rightarrow> ChunkRow list \<Rightarrow> ChunkRow list" where
  "upsertChunk r rows =
     (if vr_id r \<in> row_id ` set rows
      then map (\<lambda>row. if row_id row = vr_id r then updateRow r row else row) rows
      else rows @ [createRow r])"

fun upsert :: "Database \<Rightarrow> VectorRecord list \<Rightarrow> Database" where
  "upsert db [] = db"
| "upsert db (r # records) = upsert (db\<lparr>db_chunks := upsertChunk r (db_chunks db)\<rparr>) records"

text \<open>The filter object of \<open>search\<close>: \<open>filter?.userId\<close> and \<open>filter?.documentId\<close>.\<close>

record SearchFilter =
  f_userId :: "string option"
  f_documentId :: "string option"

definition findDocument :: "Database \<Rightarrow> string \<Rightarrow> DocumentRow option" where
  "findDocument db i = find (\<lambda>d. doc_id d = i) (db_documents db)"

text \<open>The \<open>where\<close> clause of \<open>findMany\<close>: the document of the chunk has finished embedding,
  belongs to the user of the filter when the filter names one, and is the document of the
  filter when the filter names one (\<open>filter?.documentId && ...\<close>: the empty string names
  none).\<close>

definition documentMatches :: "SearchFilter \<Rightarrow> DocumentRow \<Rightarrow> bool" where
  "documentMatches flt d \<longleftrightarrow>
     doc_embeddingStatus d = COMPLETED \<and>
     (case f_userId flt of None \<Rightarrow> True | Some u \<Rightarrow> doc_userId d = u) \<and>
     (case f_documentId flt of None \<Rightarrow> True | Some i \<Rightarrow> i = [] \<or> doc_id d = i)"

definition withDocument :: "Database \<Rightarrow> SearchFilter \<Rightarrow> ChunkRow \<Rightarrow> (ChunkRow \<times> DocumentRow) option" where
  "withDocument db flt row =
     (case findDocument db (row_documentId row) of
        None \<Rightarrow> None
      | Some d \<Rightarrow> if documentMatches flt d then Some (row, d) else None)"

text \<open>The option \<open>take\<close> of \<open>findMany\<close>: the first \<open>n\<close> rows, and for a negative \<open>n\<close> the
  last \<open>-n\<close> rows.\<close>

definition prismaTake :: "int \<Rightarrow> 'a list \<Rightarrow> 'a list" where
  "prismaTake n xs = (if 0 \<le> n then take (nat n) xs else drop (length xs - nat (- n)) xs)"

definition findMany :: "Database \<Rightarrow> SearchFilter \<Rightarrow> int \<Rightarrow> (ChunkRow \<times> DocumentRow) list" where
  "findMany db flt n = prismaTake n (List.map_filter (withDocument db flt) (db_chunks db))"

subsection \<open>Cosine similarity\<close>

text \<open>The test \<open>embedding ? ... : 0\<close>: \<open>null\<close>, \<open>false\<close>, zero, \<open>NaN\<close> and the empty
  string are falsy.\<close>

fun truthy :: "JsonValue \<Rightarrow> bool" where
  "truthy JNull = False"
| "truthy (JBool b) = b"
| "truthy (JNumber n) = (n \<noteq> Fin 0 \<and> n \<noteq> NaN)"
| "truthy (JString s) = (s \<noteq> [])"
| "truthy (JArray es) = True"
| "truthy (JObject kvs) = True"

text \<open>\<open>b.length\<close>: the number of elements of an array and of code units of a string, the
  value of the key \<open>length\<close> of an object, \<open>undefined\<close> (\<open>None\<close>) on a number or a
  boolean.  On \<open>null\<close> the access throws.\<close>

fun lengthOf :: "JsonValue \<Rightarrow> Exception + JsonValue option" where
  "lengthOf JNull = Inl TypeError"
| "lengthOf (JBool b) = Inr None"
| "lengthOf (JNumber n) = Inr None"
| "lengthOf (JString s) = Inr (Some (JNumber (Fin (real (length s)))))"
| "lengthOf (JArray es) = Inr (Some (JNumber (Fin (real (length es)))))"
| "lengthOf (JObject kvs) = Inr (map_of kvs ''length'')"

text \<open>\<open>b[i]\<close> on an array: \<open>undefined\<close> beyond its end, which converts to \<open>NaN\<close>.\<close>

definition elementAt :: "Element list \<Rightarrow> nat \<Rightarrow> Element" where
  "elementAt es i = (if i < length es then es ! i else Number NaN)"

text \<open>\<open>a.reduce((sum, val, i) => sum + val * b[i], 0)\<close> on an array \<open>b\<close>, from the
  position \<open>i\<close> on, with the sum so far.\<close>

fun dotLoop :: "JSNum list \<Rightarrow> Element list \<Rightarrow> nat \<Rightarrow> JSNum \<Rightarrow> Exception + JSNum" where
  "dotLoop [] es i acc = Inr acc"
| "dotLoop (val # rest) es i acc =
     (case elementAt es i of
        Unconvertible \<Rightarrow> Inl TypeError
      | Number x \<Rightarrow> dotLoop rest es (Suc i) (jsAdd acc (jsMul val x)))"

definition dotProduct :: "JSNum list \<Rightarrow> Element list \<Rightarrow> Exception + JSNum" where
  "dotProduct a es = dotLoop a es 0 (Fin 0)"

text \<open>\<open>Math.sqrt(a.reduce((sum, val) => sum + val * val, 0))\<close>\<close>

definition magnitude :: "JSNum list \<Rightarrow> JSNum" where
  "magnitude a = jsSqrt (foldl (\<lambda>sum val. jsAdd sum (jsMul val val)) (Fin 0) a)"

text \<open>The numbers that the elements of an array convert to, or the exception of the first
  element that cannot be converted.\<close>

fun toNumbers :: "Element list \<Rightarrow> Exception + JSNum list" where
  "toNumbers [] = Inr []"
| "toNumbers (Unconvertible # es) = Inl TypeError"
| "toNumbers (Number x # es) =
     (case toNumbers es of Inl e \<Rightarrow> Inl e | Inr xs \<Rightarrow> Inr (x # xs))"

text \<open>\<open>cosineSimilarity(a, b)\<close> with the query embedding \<open>a\<close> and the stored value \<open>b\<close>.
  A value \<open>b\<close> of the length of \<open>a\<close> that is not an array has no method \<open>reduce\<close>: the
  computation of \<open>magB\<close> throws.\<close>

definition cosineSimilarity :: "JSNum list \<Rightarrow> JsonValue \<Rightarrow> Exception + JSNum" where
  "cosineSimilarity a b =
     (case lengthOf b of
        Inl e \<Rightarrow> Inl e
      | Inr len \<Rightarrow>
          if len \<noteq> Some (JNumber (Fin (real (length a)))) then Inr (Fin 0)
          else
            (case b of
               JArray es \<Rightarrow>
                 (case dotProduct a es of
                    Inl e \<Rightarrow> Inl e
                  | Inr dot \<Rightarrow>
                      (let magA = magnitude a in
                       case toNumbers es of
                         Inl e \<Rightarrow> Inl e
                       | Inr xs \<Rightarrow>
                           (let magB = magnitude xs in
                            if magA = Fin 0 \<or> magB = Fin 0 then Inr (Fin 0)
                            else Inr (jsDiv dot (jsMul magA magB)))))
             | _ \<Rightarrow> Inl TypeError))"

subsection \<open>Search\<close>

record SearchResult =
  res_id :: string
  res_documentId :: string
  res_chunkIndex :: nat
  res_content :: string
  res_score :: JSNum
  res_metadata :: "Metadata option"

definition storedVector :: "ChunkRow \<Rightarrow> JsonValue option" where
  "storedVector row = mdGet md_embeddingVector (row_metadata row)"

text \<open>The score of a chunk, or the exception of its computation.\<close>

definition scoreOf :: "JSNum list \<Rightarrow> ChunkRow \<Rightarrow> Exception + JSNum" where
  "scoreOf queryEmbedding row =
     (case storedVector row of
        None \<Rightarrow> Inr (Fin 0)
      | Some embedding \<Rightarrow>
          if truthy embedding then cosineSimilarity queryEmbedding embedding else Inr (Fin 0))"

text \<open>The object that the callback of \<open>chunks.map\<close> returns for a chunk with its document
  and its score.\<close>

definition resultWith :: "ChunkRow \<times> DocumentRow \<Rightarrow> JSNum \<Rightarrow> SearchResult" where
  "resultWith c score =
     \<lparr>res_id = row_id (fst c), res_documentId = row_documentId (fst c),
      res_chunkIndex = row_chunkIndex (fst c), res_content = row_content (fst c),
      res_score = score,
      res_metadata = Some \<lparr>md_startChar = None, md_endChar = None, md_qualityScore = None,
                            md_documentName = Some (doc_name (snd c)),
                            md_embeddingVector = None\<rparr>\<rparr>"

definition toResult :: "JSNum list \<Rightarrow> ChunkRow \<times> DocumentRow \<Rightarrow> Exception + SearchResult" where
  "toResult queryEmbedding c =
     (case scoreOf queryEmbedding (fst c) of
        Inl e \<Rightarrow> Inl e
      | Inr score \<Rightarrow> Inr (resultWith c score))"

text \<open>\<open>chunks.map(...)\<close>: the results in the order of the chunks, or the exception of the
  first chunk whose score cannot be computed.\<close>

fun toResults :: "JSNum list \<Rightarrow> (ChunkRow \<times> DocumentRow) list \<Rightarrow> Exception + SearchResult list" where
  "toResults queryEmbedding [] = Inr []"
| "toResults queryEmbedding (c # cs) =
     (case toResult queryEmbedding c of
        Inl e \<Rightarrow> Inl e
      | Inr r \<Rightarrow>
          (case toResults queryEmbedding cs of Inl e \<Rightarrow> Inl e | Inr rs \<Rightarrow> Inr (r # rs)))"

text \<open>\<open>results.sort((a, b) => b.score - a.score)\<close>.  The sort is stable: a result stays
  behind the results before it unless the comparator puts it strictly first.  When no
  score is \<open>NaN\<close> this determines the sorted array, which the model builds by insertion.
  A score \<open>NaN\<close> makes the comparator inconsistent; the order is then up to the engine,
  and the array of the model is one that an engine may produce.\<close>

definition compareScores :: "SearchResult \<Rightarrow> SearchResult \<Rightarrow> JSNum" where
  "compareScores a b = jsSub (res_score b) (res_score a)"

fun insertResult :: "SearchResult \<Rightarrow> SearchResult list \<Rightarrow> SearchResult list" where
  "insertResult x [] = [x]"
| "insertResult x (y # ys) =
     (if jsNegative (compareScores y x) then y # insertResult x ys else x # y # ys)"

definition sortByScore :: "SearchResult list \<Rightarrow> SearchResult list" where
  "sortByScore rs = foldr insertResult rs []"

text \<open>The array \<open>results\<close> of \<open>search\<close> before it is sorted, and \<open>search\<close>.\<close>

definition scored ::
  "Database \<Rightarrow> JSNum list \<Rightarrow> int \<Rightarrow> SearchFilter \<Rightarrow> Exception + SearchResult list" where
  "scored db queryEmbedding topK flt = toResults queryEmbedding (findMany db flt (topK * 2))"

definition search ::
  "Database \<Rightarrow> JSNum list \<Rightarrow> int \<Rightarrow> SearchFilter \<Rightarrow> Exception + SearchResult list" where
  "search db queryEmbedding topK flt =
     (case scored db queryEmbedding topK flt of
        Inl e \<Rightarrow> Inl e
      | Inr results \<Rightarrow> Inr (slice (sortByScore results) 0 topK))"






text \<open>A store for the examples: one document of user \<open>u1\<close> that has finished embedding,
  a record whose metadata has the keys that \<open>processDocument\<close> writes, and a record whose
  metadata carries its vector under the key \<open>embeddingVector\<close> as well.\<close>

definition exampleDocument :: DocumentRow where
  "exampleDocument =
     \<lparr>doc_id = ''d1'', doc_name = ''notes'', doc_userId = ''u1'', doc_content = ''alpha beta'',
      doc_status = COMPLETED, doc_embeddingStatus = COMPLETED, doc_chunksCount = 2\<rparr>"

definition recordA :: VectorRecord where
  "recordA =
     \<lparr>vr_id = ''d1-chunk-0'', vr_documentId = ''d1'', vr_chunkIndex = 0, vr_content = ''alpha'',
      vr_embedding = [Fin 1, Fin 0],
      vr_metadata = Some \<lparr>md_startChar = Some 0, md_endChar = Some 5, md_qualityScore = Some 50,
                           md_documentName = Some ''notes'', md_embeddingVector = None\<rparr>\<rparr>"

definition recordB :: VectorRecord where
  "recordB =
     \<lparr>vr_id = ''d1-chunk-1'', vr_documentId = ''d1'', vr_chunkIndex = 1, vr_content = ''beta'',
      vr_embedding = [Fin 1, Fin 0],
      vr_metadata = Some \<lparr>md_startChar = Some 5, md_endChar = Some 9, md_qualityScore = Some 50,
                           md_documentName = Some ''notes'',
                           md_embeddingVector = Some (JArray [Number (Fin 1), Number (Fin 0)])\<rparr>\<rparr>"

definition exampleStore :: Database where
  "exampleStore = upsert \<lparr>db_chunks = [], db_documents = [exampleDocument]\<rparr> [recordB]"

definition userFilter :: SearchFilter where
  "userFilter = \<lparr>f_userId = Some ''u1'', f_documentId = None\<rparr>"

definition resultOf :: "VectorRecord \<Rightarrow> JSNum \<Rightarrow> SearchResult" where
  "resultOf r s =
     \<lparr>res_id = vr_id r, res_documentId = vr_documentId r, res_chunkIndex = vr_chunkIndex r,
      res_content = vr_content r, res_score = s,
      res_metadata = Some \<lparr>md_startChar = None, md_endChar = None, md_qualityScore = None,
                            md_documentName = Some ''notes'', md_embeddingVector = None\<rparr>\<rparr>"




section \<open>Retrieval\<close>

datatype CitationFormat = Numbered | Inline

record RagConfig =
  cfg_embeddingDimension :: nat
  cfg_chunkSize :: int
  cfg_chunkOverlap :: int
  cfg_minChunkSize :: int
  cfg_retrievalTopK :: int
  cfg_similarityThreshold :: real
  cfg_rerankEnabled :: bool
  cfg_rerankModel :: "string option"
  cfg_maxContextTokens :: int
  cfg_includeCitations :: bool
  cfg_citationFormat :: CitationFormat

definition defaultRagConfig :: RagConfig where
  "defaultRagConfig =
     \<lparr>cfg_embeddingDimension = 1536,
      cfg_chunkSize = 1000, cfg_chunkOverlap = 200, cfg_minChunkSize = 100,
      cfg_retrievalTopK = 5, cfg_similarityThreshold = 0.7,
      cfg_rerankEnabled = False, cfg_rerankModel = None,
      cfg_maxContextTokens = 4000, cfg_includeCitations = True, cfg_citationFormat = Numbered\<rparr>"

record RetrievalOptions =
  ro_query :: string
  ro_userId :: string
  ro_documentIds :: "string list option"
  ro_topK :: "int option"
  ro_similarityThreshold :: "real option"
  ro_useRag :: "bool option"

record EmbeddingResult =
  er_embedding :: "JSNum list"
  er_model :: string
  er_provider :: string
  er_tokens :: nat

text \<open>The filter that \<open>Retriever.retrieve\<close> builds: the user, and \<open>{$in: documentIds}\<close>
  when the list of documents is given and not empty.\<close>

record StoreFilter =
  sf_userId :: string
  sf_documentId :: "string list option"

text \<open>The retriever with its collaborators.  A call of a collaborator returns a value
  (\<open>Inr\<close>) or throws (\<open>Inl\<close> with the message).\<close>

record Retriever =
  vectorStore_search :: "JSNum list \<Rightarrow> int \<Rightarrow> StoreFilter \<Rightarrow> string + SearchResult list"
  embeddingProvider_embedSingle :: "string \<Rightarrow> string + EmbeddingResult"
  retriever_config :: RagConfig

record DocumentChunk =
  dc_id :: string
  dc_documentId :: string
  dc_documentName :: string
  dc_content :: string
  dc_chunkIndex :: nat
  dc_startChar :: "int option"
  dc_endChar :: "int option"
  dc_score :: "JSNum option"
  dc_metadata :: "Metadata option"

record RetrievalResult =
  rr_chunks :: "DocumentChunk list"
  rr_totalChunks :: nat
  rr_query :: string
  rr_executionTime :: int

definition effectiveTopK :: "Retriever \<Rightarrow> RetrievalOptions \<Rightarrow> int" where
  "effectiveTopK rt options =
     (case ro_topK options of None \<Rightarrow> cfg_retrievalTopK (retriever_config rt) | Some k \<Rightarrow> k)"

definition effectiveThreshold :: "Retriever \<Rightarrow> RetrievalOptions \<Rightarrow> real" where
  "effectiveThreshold rt options =
     (case ro_similarityThreshold options of
        None \<Rightarrow> cfg_similarityThreshold (retriever_config rt) | Some t \<Rightarrow> t)"

definition buildFilter :: "RetrievalOptions \<Rightarrow> StoreFilter" where
  "buildFilter options =
     \<lparr>sf_userId = ro_userId options,
      sf_documentId = (case ro_documentIds options of
                         None \<Rightarrow> None
                       | Some ids \<Rightarrow> if length ids > 0 then Some ids else None)\<rparr>"

definition rerankResults :: "string \<Rightarrow> SearchResult list \<Rightarrow> int \<Rightarrow> SearchResult list" where
  "rerankResults query results topK = slice results 0 topK"

text \<open>\<open>x || d\<close> on a string that may be absent.\<close>

definition orString :: "string option \<Rightarrow> string \<Rightarrow> string" where
  "orString x d = (case x of None \<Rightarrow> d | Some s \<Rightarrow> if s = [] then d else s)"

definition toDocumentChunk :: "SearchResult \<Rightarrow> DocumentChunk" where
  "toDocumentChunk r =
     \<lparr>dc_id = res_id r, dc_documentId = res_documentId r,
      dc_documentName = orString (mdGet md_documentName (res_metadata r)) ''Unknown'',
      dc_content = res_content r, dc_chunkIndex = res_chunkIndex r,
      dc_startChar = mdGet md_startChar (res_metadata r),
      dc_endChar = mdGet md_endChar (res_metadata r),
      dc_score = Some (res_score r), dc_metadata = res_metadata r\<rparr>"

text \<open>\<open>Retriever.retrieve\<close>.  The argument \<open>executionTime\<close> is the time that the clock
  measures for the call.\<close>

definition retrieve :: "Retriever \<Rightarrow> int \<Rightarrow> RetrievalOptions \<Rightarrow> string + RetrievalResult" where
  "retrieve rt executionTime options =
     (let topK = effectiveTopK rt options;
          similarityThreshold = effectiveThreshold rt options in
      if ro_useRag options = Some False then
        Inr \<lparr>rr_chunks = [], rr_totalChunks = 0, rr_query = ro_query options,
             rr_executionTime = executionTime\<rparr>
      else
        case embeddingProvider_embedSingle rt (ro_query options) of
          Inl err \<Rightarrow> Inl err
        | Inr queryEmbedding \<Rightarrow>
            (case vectorStore_search rt (er_embedding queryEmbedding) (topK * 2) (buildFilter options) of
               Inl err \<Rightarrow> Inl err
             | Inr results \<Rightarrow>
                 (let filteredResults = filter (\<lambda>r. jsGe (res_score r) (Fin similarityThreshold)) results;
                      rankedResults =
                        (if cfg_rerankEnabled (retriever_config rt)
                            \<and> orString (cfg_rerankModel (retriever_config rt)) [] \<noteq> []
                         then rerankResults (ro_query options) filteredResults topK
                         else slice filteredResults 0 topK)
                  in Inr \<lparr>rr_chunks = map toDocumentChunk rankedResults,
                          rr_totalChunks = length results, rr_query = ro_query options,
                          rr_executionTime = executionTime\<rparr>)))"

text \<open>\<open>chunk.score || 0\<close>\<close>

definition chunkScore :: "DocumentChunk \<Rightarrow> JSNum" where
  "chunkScore c = orZero (dc_score c)"

definition descending :: "JSNum list \<Rightarrow> bool" where
  "descending xs \<longleftrightarrow> sorted_wrt jsGe xs"

text \<open>The scenario of the specification: a vector store that answers every search with
  three candidates of scores 0.9, 0.75 and 0.5, and the default configuration
  (\<open>topK = 5\<close>, \<open>similarityThreshold = 0.7\<close>).\<close>

definition candidate :: "string \<Rightarrow> nat \<Rightarrow> JSNum \<Rightarrow> SearchResult" where
  "candidate i n s =
     \<lparr>res_id = i, res_documentId = ''d1'', res_chunkIndex = n, res_content = ''text'',
      res_score = s, res_metadata = None\<rparr>"

definition threeCandidates :: "SearchResult list" where
  "threeCandidates =
     [candidate ''c0'' 0 (Fin 0.9), candidate ''c1'' 1 (Fin 0.75), candidate ''c2'' 2 (Fin 0.5)]"

definition scenarioRetriever :: Retriever where
  "scenarioRetriever =
     \<lparr>vectorStore_search = (\<lambda>q k f. Inr threeCandidates),
      embeddingProvider_embedSingle =
        (\<lambda>t. Inr \<lparr>er_embedding = [Fin 1, Fin 0], er_model = ''text-embedding-3-small'',
                      er_provider = ''openai'', er_tokens = 1\<rparr>),
      retriever_config = defaultRagConfig\<rparr>"

definition scenarioOptions :: RetrievalOptions where
  "scenarioOptions =
     \<lparr>ro_query = ''question'', ro_userId = ''u1'', ro_documentIds = None, ro_topK = None,
      ro_similarityThreshold = None, ro_useRag = None\<rparr>"

section \<open>Embedding providers\<close>

text \<open>The answer of the embedding service to one request: the vectors, and the number of
  prompt tokens when the service reports it.\<close>

record EmbeddingResponse =
  resp_embeddings :: "JSNum list list"
  resp_promptTokens :: "nat option"

text \<open>A provider class with its fields \<open>name\<close>, \<open>maxBatchSize\<close> and \<open>model\<close>.  The field
  \<open>api_request\<close> is the call of the service for one batch (\<open>client.embeddings.create\<close> or
  the \<open>fetch\<close> of the Cohere endpoint with the reading of its answer): it returns the
  answer (\<open>Inr\<close>) or throws (\<open>Inl\<close> with the message).  \<open>api_tokens\<close> is the number that
  the class writes into \<open>tokens\<close>.\<close>

record ApiProvider =
  api_name :: string
  api_maxBatchSize :: nat
  api_model :: string
  api_request :: "string list \<Rightarrow> string + EmbeddingResponse"
  api_tokens :: "EmbeddingResponse \<Rightarrow> nat"

definition openAIEmbeddingProvider ::
  "string \<Rightarrow> (string list \<Rightarrow> string + EmbeddingResponse) \<Rightarrow> ApiProvider" where
  "openAIEmbeddingProvider model request =
     \<lparr>api_name = ''openai'', api_maxBatchSize = 2048, api_model = model, api_request = request,
      api_tokens = (\<lambda>response. case resp_promptTokens response of None \<Rightarrow> 0 | Some n \<Rightarrow> n)\<rparr>"

definition cohereEmbeddingProvider ::
  "string \<Rightarrow> (string list \<Rightarrow> string + EmbeddingResponse) \<Rightarrow> ApiProvider" where
  "cohereEmbeddingProvider model request =
     \<lparr>api_name = ''cohere'', api_maxBatchSize = 96, api_model = model, api_request = request,
      api_tokens = (\<lambda>response. 0)\<rparr>"

definition toEmbeddingResult :: "ApiProvider \<Rightarrow> EmbeddingResponse \<Rightarrow> JSNum list \<Rightarrow> EmbeddingResult" where
  "toEmbeddingResult pv response v =
     \<lparr>er_embedding = v, er_model = api_model pv, er_provider = api_name pv,
      er_tokens = api_tokens pv response\<rparr>"

text \<open>The loop of \<open>embed\<close> over the sub-batches, the same in both classes.  Its value is
  the list of the requests that were sent, in order, and the outcome of the call: the
  results (\<open>Inr\<close>) or the exception that left the loop (\<open>Inl\<close>).  With \<open>maxBatchSize = 0\<close>
  the loop does not advance and never returns: the value is \<open>None\<close>.\<close>

partial_function (option) embedLoop ::
  "ApiProvider \<Rightarrow> string list \<Rightarrow> nat \<Rightarrow> string list list \<Rightarrow> EmbeddingResult list
     \<Rightarrow> (string list list \<times> (string + EmbeddingResult list)) option" where
  "embedLoop pv texts i calls results =
     (if i < length texts then
        (let batch = take (api_maxBatchSize pv) (drop i texts) in
         case api_request pv batch of
           Inl err \<Rightarrow> Some (calls @ [batch], Inl err)
         | Inr response \<Rightarrow>
             embedLoop pv texts (i + api_maxBatchSize pv) (calls @ [batch])
               (results @ map (toEmbeddingResult pv response) (resp_embeddings response)))
      else Some (calls, Inr results))"

declare embedLoop.simps [code]

definition embed ::
  "ApiProvider \<Rightarrow> string list \<Rightarrow> (string list list \<times> (string + EmbeddingResult list)) option" where
  "embed pv texts = embedLoop pv texts 0 [] []"

text \<open>The sub-batch number \<open>j\<close> of a call of \<open>embed\<close>.\<close>

definition subBatch :: "ApiProvider \<Rightarrow> string list \<Rightarrow> nat \<Rightarrow> string list" where
  "subBatch pv texts j = take (api_maxBatchSize pv) (drop (j * api_maxBatchSize pv) texts)"

section \<open>Document ingestion\<close>

text \<open>The decimal digits of a number, as a template literal prints it.\<close>

definition digit :: "nat \<Rightarrow> char" where
  "digit n = char_of (48 + n)"

function showNat :: "nat \<Rightarrow> string" where
  "showNat n = (if n < 10 then [digit n] else showNat (n div 10) @ [digit (n mod 10)])"
  by pat_completeness auto
termination
  by (relation "measure id") auto

declare showNat.simps [simp del]

record ParsedDocument =
  pd_content :: string
  pd_title :: "string option"
  pd_fileType :: string
  pd_fileSize :: nat

datatype IngestionStatus = Success | Failed | Partial

record IngestionResult =
  ir_documentId :: string
  ir_chunksCount :: nat
  ir_status :: IngestionStatus
  ir_errors :: "string list option"

text \<open>The ingestion service with its collaborators: \<open>embeddingProvider.embed\<close>, which
  returns the results or throws, \<open>vectorStore.upsert\<close>, which returns or throws
  (\<open>Some\<close> with the message), and the configuration.  The tables behind the Prisma client
  are the state that the operations pass on.\<close>

record IngestionService =
  svc_embed :: "string list \<Rightarrow> string + EmbeddingResult list"
  svc_storeUpsert :: "VectorRecord list \<Rightarrow> string option"
  svc_config :: RagConfig

text \<open>\<open>prisma.document.update\<close>: it throws when no document has the id.\<close>

definition updateDocument ::
  "string \<Rightarrow> (DocumentRow \<Rightarrow> DocumentRow) \<Rightarrow> Database \<Rightarrow> string + Database" where
  "updateDocument i f db =
     (if i \<in> doc_id ` set (db_documents db)
      then Inr (db\<lparr>db_documents := map (\<lambda>d. if doc_id d = i then f d else d) (db_documents db)\<rparr>)
      else Inl ''Record to update not found.'')"

text \<open>\<open>prisma.document.create\<close>: it throws when a document has the id already.  The
  document starts with the status \<open>PROCESSING\<close>.\<close>

definition createDocument ::
  "string \<Rightarrow> string \<Rightarrow> string \<Rightarrow> string \<Rightarrow> Database \<Rightarrow> string + Database" where
  "createDocument i name userId text db =
     (if i \<in> doc_id ` set (db_documents db)
      then Inl ''Unique constraint failed on the fields: (`id`)''
      else Inr (db\<lparr>db_documents := db_documents db @
                  [\<lparr>doc_id = i, doc_name = name, doc_userId = userId, doc_content = text,
                    doc_status = PROCESSING, doc_embeddingStatus = PROCESSING,
                    doc_chunksCount = 0\<rparr>]\<rparr>))"

text \<open>\<open>updateDocumentStatus\<close>; the count is written for \<open>COMPLETED\<close> when it is given and
  not zero.\<close>

definition updateDocumentStatus ::
  "string \<Rightarrow> Status \<Rightarrow> nat option \<Rightarrow> Database \<Rightarrow> string + Database" where
  "updateDocumentStatus documentId status chunksCount db =
     updateDocument documentId
       (\<lambda>d. d\<lparr>doc_status := status,
               doc_embeddingStatus :=
                 (if status = COMPLETED then COMPLETED
                  else if status = FAILED then FAILED else PROCESSING),
               doc_chunksCount :=
                 (case chunksCount of
                    Some n \<Rightarrow> if status = COMPLETED \<and> n \<noteq> 0 then n else doc_chunksCount d
                  | None \<Rightarrow> doc_chunksCount d)\<rparr>) db"

definition calculateChunkQuality :: "string \<Rightarrow> real" where
  "calculateChunkQuality c =
     (let len = length c;
          lengthScore = (if 200 \<le> len \<and> len \<le> 1000 then 20
                         else if len > 1000 then 10 else real len / 50);
          structureScore = (if CHR ''.'' \<in> set c \<and> CHR '' '' \<in> set c then 15 else 0);
          sentences = filter (\<lambda>s. length (trim s) > 10) (splitRuns isTerminal False [] c);
          coherenceScore = (if length sentences \<ge> 2 then 15 else 0)
      in min 100 (50 + lengthScore + structureScore + coherenceScore))"

text \<open>The chunking options of \<open>processDocument\<close>: the options of the call, and the
  configuration of the service where the call gives none.\<close>

definition chunkingConfig :: "IngestionService \<Rightarrow> PartialChunkOptions option \<Rightarrow> PartialChunkOptions" where
  "chunkingConfig svc chunkingOptions =
     \<lparr>p_strategy = Some (case chunkingOptions of
                           None \<Rightarrow> Paragraph
                         | Some co \<Rightarrow> (case p_strategy co of None \<Rightarrow> Paragraph | Some s \<Rightarrow> s)),
      p_chunkSize = Some (orNum (case chunkingOptions of None \<Rightarrow> None | Some co \<Rightarrow> p_chunkSize co)
                            (cfg_chunkSize (svc_config svc))),
      p_chunkOverlap = Some (orNum (case chunkingOptions of None \<Rightarrow> None | Some co \<Rightarrow> p_chunkOverlap co)
                               (cfg_chunkOverlap (svc_config svc))),
      p_minChunkSize = Some (orNum (case chunkingOptions of None \<Rightarrow> None | Some co \<Rightarrow> p_minChunkSize co)
                               (cfg_minChunkSize (svc_config svc)))\<rparr>"

definition batchSize :: nat where
  "batchSize = 100"

text \<open>The inner loop over the results of one batch: the result number \<open>j\<close> is paired
  with \<open>batch[j]\<close>, which is undefined (\<open>None\<close>) when the provider returns more results
  than texts.\<close>

definition pairUp :: "TextChunk list \<Rightarrow> EmbeddingResult list \<Rightarrow> (TextChunk option \<times> JSNum list) list" where
  "pairUp batch results =
     map (\<lambda>j. (if j < length batch then Some (batch ! j) else None, er_embedding (results ! j)))
       [0..<length results]"

definition batchMessage :: "nat \<Rightarrow> string \<Rightarrow> string" where
  "batchMessage i msg = ''Embedding batch '' @ showNat (i div batchSize + 1) @ '' failed: '' @ msg"

text \<open>The loop of \<open>processDocument\<close> over the batches of chunks, with its variables
  \<open>allEmbeddings\<close> and \<open>errors\<close>.  An exception of \<open>embed\<close> is caught and recorded; an
  exception of the progress update leaves the loop (\<open>Inl\<close>, with the errors recorded so
  far and the tables as they are).\<close>

function batchLoop ::
  "(string list \<Rightarrow> string + EmbeddingResult list) \<Rightarrow> string \<Rightarrow> TextChunk list \<Rightarrow> nat
     \<Rightarrow> (TextChunk option \<times> JSNum list) list \<Rightarrow> string list \<Rightarrow> Database
     \<Rightarrow> (string \<times> string list \<times> Database)
         + ((TextChunk option \<times> JSNum list) list \<times> string list \<times> Database)" where
  "batchLoop embedTexts documentId chunks i allEmbeddings errors db =
     (if i < length chunks then
        (let batch = take batchSize (drop i chunks);
             texts = map content batch;
             allEmbeddings1 = (case embedTexts texts of
                                 Inr results \<Rightarrow> allEmbeddings @ pairUp batch results
                               | Inl msg \<Rightarrow> allEmbeddings);
             errors1 = (case embedTexts texts of
                          Inr results \<Rightarrow> errors
                        | Inl msg \<Rightarrow> errors @ [batchMessage i msg])
         in case updateDocument documentId
                   (\<lambda>d. d\<lparr>doc_chunksCount := min (i + batchSize) (length chunks)\<rparr>) db of
              Inl e \<Rightarrow> Inl (e, errors1, db)
            | Inr db1 \<Rightarrow>
                batchLoop embedTexts documentId chunks (i + batchSize) allEmbeddings1 errors1 db1)
      else Inr (allEmbeddings, errors, db))"
  by pat_completeness auto
termination
  by (relation "measure (\<lambda>(embedTexts, documentId, chunks, i, rest). length chunks - i)")
     (auto simp: batchSize_def)

declare batchLoop.simps [simp del]

text \<open>The vector records of the embedded chunks.  Reading \<open>chunk.index\<close> of an undefined
  chunk throws.\<close>

definition toVectorRecord :: "string \<Rightarrow> ParsedDocument \<Rightarrow> TextChunk \<Rightarrow> JSNum list \<Rightarrow> VectorRecord" where
  "toVectorRecord documentId parsed chunk embedding =
     \<lparr>vr_id = documentId @ ''-chunk-'' @ showNat (index chunk),
      vr_documentId = documentId, vr_chunkIndex = index chunk, vr_content = content chunk,
      vr_embedding = embedding,
      vr_metadata = Some \<lparr>md_startChar = Some (startChar chunk), md_endChar = Some (endChar chunk),
                           md_qualityScore = Some (calculateChunkQuality (content chunk)),
                           md_documentName = pd_title parsed,
                           md_embeddingVector = None\<rparr>\<rparr>"

fun toVectorRecords ::
  "string \<Rightarrow> ParsedDocument \<Rightarrow> (TextChunk option \<times> JSNum list) list \<Rightarrow> string + VectorRecord list" where
  "toVectorRecords documentId parsed [] = Inr []"
| "toVectorRecords documentId parsed ((None, embedding) # rest) =
     Inl ''Cannot read properties of undefined (reading 'index')''"
| "toVectorRecords documentId parsed ((Some chunk, embedding) # rest) =
     (case toVectorRecords documentId parsed rest of
        Inl e \<Rightarrow> Inl e
      | Inr records \<Rightarrow> Inr (toVectorRecord documentId parsed chunk embedding # records))"

text \<open>The body of the \<open>try\<close> block of \<open>processDocument\<close>, after the chunks are computed.
  \<open>Inl\<close> is an exception that reaches the \<open>catch\<close> block, with the variable \<open>errors\<close> and
  the tables at that point.\<close>

definition processBody ::
  "IngestionService \<Rightarrow> string \<Rightarrow> ParsedDocument \<Rightarrow> TextChunk list \<Rightarrow> Database
     \<Rightarrow> (string \<times> string list \<times> Database) + (IngestionResult \<times> Database)" where
  "processBody svc documentId parsed chunks db =
     (if length chunks = 0 then
        (case updateDocumentStatus documentId FAILED None db of
           Inl e \<Rightarrow> Inl (e, [], db)
         | Inr db1 \<Rightarrow>
             Inr (\<lparr>ir_documentId = documentId, ir_chunksCount = 0, ir_status = Failed,
                   ir_errors = Some [''No content to chunk'']\<rparr>, db1))
      else
        case batchLoop (svc_embed svc) documentId chunks 0 [] [] db of
          Inl x \<Rightarrow> Inl x
        | Inr (allEmbeddings, errors, db1) \<Rightarrow>
            (case toVectorRecords documentId parsed allEmbeddings of
               Inl e \<Rightarrow> Inl (e, errors, db1)
             | Inr vectorRecords \<Rightarrow>
                 (case svc_storeUpsert svc vectorRecords of
                    Some e \<Rightarrow> Inl (e, errors, db1)
                  | None \<Rightarrow>
                      (let db2 = upsert db1 vectorRecords in
                       case updateDocumentStatus documentId COMPLETED
                              (Some (length allEmbeddings)) db2 of
                         Inl e \<Rightarrow> Inl (e, errors, db2)
                       | Inr db3 \<Rightarrow>
                           Inr (\<lparr>ir_documentId = documentId,
                                 ir_chunksCount = length allEmbeddings,
                                 ir_status = (if length errors > 0 then Partial else Success),
                                 ir_errors = (if length errors > 0 then Some errors else None)\<rparr>,
                                db3)))))"

text \<open>\<open>processDocument\<close>: the result, or the exception of the \<open>catch\<close> block (\<open>Inl\<close>), and
  the tables after the call; \<open>None\<close> when the chunker does not return.\<close>

definition processDocument ::
  "IngestionService \<Rightarrow> string \<Rightarrow> ParsedDocument \<Rightarrow> PartialChunkOptions option \<Rightarrow> Database
     \<Rightarrow> ((string + IngestionResult) \<times> Database) option" where
  "processDocument svc documentId parsed chunkingOptions db =
     (case chunkText (pd_content parsed) (chunkingConfig svc chunkingOptions) of
        None \<Rightarrow> None
      | Some chunks \<Rightarrow>
          Some (case processBody svc documentId parsed chunks db of
                  Inr (result, db1) \<Rightarrow> (Inr result, db1)
                | Inl (e, errors, db1) \<Rightarrow>
                    (case updateDocumentStatus documentId FAILED None db1 of
                       Inl e1 \<Rightarrow> (Inl e1, db1)
                     | Inr db2 \<Rightarrow>
                         (Inr \<lparr>ir_documentId = documentId, ir_chunksCount = 0,
                               ir_status = Failed, ir_errors = Some (errors @ [e])\<rparr>, db2))))"

text \<open>The source of an ingestion call: the outcome of the parser on the file or buffer
  (the parsed document, or the exception of the parser), and the name of the file.\<close>

record IngestionSource =
  src_parsed :: "string + ParsedDocument"
  src_fileName :: string

definition failedIngestion :: "string \<Rightarrow> IngestionResult" where
  "failedIngestion message =
     \<lparr>ir_documentId = [], ir_chunksCount = 0, ir_status = Failed, ir_errors = Some [message]\<rparr>"

text \<open>\<open>ingestDocument\<close> and \<open>ingestDocumentFromBuffer\<close>; \<open>newId\<close> is the value of
  \<open>uuidv4()\<close>.\<close>

definition ingestDocument ::
  "IngestionService \<Rightarrow> string \<Rightarrow> IngestionSource \<Rightarrow> string \<Rightarrow> PartialChunkOptions option
     \<Rightarrow> Database \<Rightarrow> (IngestionResult \<times> Database) option" where
  "ingestDocument svc newId source userId chunkingOptions db =
     (case src_parsed source of
        Inl e \<Rightarrow> Some (failedIngestion e, db)
      | Inr parsed \<Rightarrow>
          (case createDocument newId (orString (pd_title parsed) (src_fileName source)) userId
                  (pd_content parsed) db of
             Inl e \<Rightarrow> Some (failedIngestion e, db)
           | Inr db1 \<Rightarrow>
               (case processDocument svc newId parsed chunkingOptions db1 of
                  None \<Rightarrow> None
                | Some (Inl e, db2) \<Rightarrow> Some (failedIngestion e, db2)
                | Some (Inr result, db2) \<Rightarrow> Some (result, db2))))"

text \<open>The batches of the loop, and what the loop records over all of them: the messages of
  the batches whose \<open>embed\<close> call threw, and the pairs of the batches whose call
  returned.\<close>

definition batchAt :: "TextChunk list \<Rightarrow> nat \<Rightarrow> TextChunk list" where
  "batchAt chunks j = take batchSize (drop (j * batchSize) chunks)"

definition batchCount :: "TextChunk list \<Rightarrow> nat" where
  "batchCount chunks = (length chunks + batchSize - 1) div batchSize"

definition batchErrorsFrom ::
  "(string list \<Rightarrow> string + EmbeddingResult list) \<Rightarrow> TextChunk list \<Rightarrow> nat \<Rightarrow> string list" where
  "batchErrorsFrom embedTexts chunks j0 =
     concat (map (\<lambda>j. case embedTexts (map content (batchAt chunks j)) of
                         Inl msg \<Rightarrow> [batchMessage (j * batchSize) msg]
                       | Inr results \<Rightarrow> [])
               [j0..<batchCount chunks])"

definition embeddedFrom ::
  "(string list \<Rightarrow> string + EmbeddingResult list) \<Rightarrow> TextChunk list \<Rightarrow> nat
     \<Rightarrow> (TextChunk option \<times> JSNum list) list" where
  "embeddedFrom embedTexts chunks j0 =
     concat (map (\<lambda>j. case embedTexts (map content (batchAt chunks j)) of
                         Inl msg \<Rightarrow> []
                       | Inr results \<Rightarrow> pairUp (batchAt chunks j) results)
               [j0..<batchCount chunks])"

text \<open>Some batch gets more results from the provider than it has texts.  The inner loop
  then pairs a result with \<open>undefined\<close>.\<close>

definition overfullBatch ::
  "(string list \<Rightarrow> string + EmbeddingResult list) \<Rightarrow> TextChunk list \<Rightarrow> bool" where
  "overfullBatch embedTexts chunks \<longleftrightarrow>
     list_ex (\<lambda>j. case embedTexts (map content (batchAt chunks j)) of
                      Inl msg \<Rightarrow> False
                    | Inr results \<Rightarrow> length (batchAt chunks j) < length results)
       [0..<batchCount chunks]"

definition docIds :: "Database \<Rightarrow> string set" where
  "docIds db = doc_id ` set (db_documents db)"

subsection \<open>Examples\<close>

text \<open>Examples of ingestion: a provider that throws on every call, one that returns one
  vector for every text, one that returns a vector too many, a vector store whose \<open>upsert\<close>
  throws, a text file with a given content, a PDF file (the parser of PDF files throws with
  this message on every file), and a store with no document.\<close>

definition unitResult :: EmbeddingResult where
  "unitResult = \<lparr>er_embedding = [Fin 1, Fin 0], er_model = ''text-embedding-3-small'',
                  er_provider = ''openai'', er_tokens = 1\<rparr>"

definition failingService :: IngestionService where
  "failingService =
     \<lparr>svc_embed = (\<lambda>texts. Inl ''rate limit''), svc_storeUpsert = (\<lambda>records. None),
      svc_config = defaultRagConfig\<rparr>"

definition workingService :: IngestionService where
  "workingService =
     \<lparr>svc_embed = (\<lambda>texts. Inr (map (\<lambda>t. unitResult) texts)),
      svc_storeUpsert = (\<lambda>records. None), svc_config = defaultRagConfig\<rparr>"

definition overfullService :: IngestionService where
  "overfullService =
     \<lparr>svc_embed = (\<lambda>texts. Inr (unitResult # map (\<lambda>t. unitResult) texts)),
      svc_storeUpsert = (\<lambda>records. None), svc_config = defaultRagConfig\<rparr>"

definition brokenStoreService :: IngestionService where
  "brokenStoreService =
     \<lparr>svc_embed = (\<lambda>texts. Inr (map (\<lambda>t. unitResult) texts)),
      svc_storeUpsert = (\<lambda>records. Some ''connection refused''),
      svc_config = defaultRagConfig\<rparr>"

definition parsedText :: "string \<Rightarrow> ParsedDocument" where
  "parsedText text = \<lparr>pd_content = text, pd_title = None, pd_fileType = ''txt'',
                        pd_fileSize = length text\<rparr>"

definition textFile :: "string \<Rightarrow> IngestionSource" where
  "textFile text = \<lparr>src_parsed = Inr (parsedText text), src_fileName = ''notes.txt''\<rparr>"

definition pdfFile :: IngestionSource where
  "pdfFile =
     \<lparr>src_parsed = Inl ''PDF parsing requires 'pdf-parse' package. Install it with: npm install pdf-parse'',
      src_fileName = ''notes.pdf''\<rparr>"

definition emptyDatabase :: Database where
  "emptyDatabase = \<lparr>db_chunks = [], db_documents = []\<rparr>"

definition documentAfter :: "string \<Rightarrow> Status \<Rightarrow> DocumentRow" where
  "documentAfter text status =
     \<lparr>doc_id = ''doc-1'', doc_name = ''notes.txt'', doc_userId = ''u1'', doc_content = text,
      doc_status = status, doc_embeddingStatus = status, doc_chunksCount = 1\<rparr>"

text \<open>A text of 102 one-letter words, which the fixed strategy with windows of two words
  and an overlap of one cuts into 101 chunks, and a provider that throws on every batch
  of fewer than 100 texts.\<close>

definition manyWords :: string where
  "manyWords = CHR ''a'' # concat (replicate 101 '' a'')"

definition smallWindows :: PartialChunkOptions where
  "smallWindows = \<lparr>p_strategy = Some Fixed, p_chunkSize = Some 2, p_chunkOverlap = Some 1,
                     p_minChunkSize = Some 1\<rparr>"

definition fullBatchesOnly :: "string list \<Rightarrow> string + EmbeddingResult list" where
  "fullBatchesOnly texts =
     (if length texts = 100 then Inr (map (\<lambda>t. unitResult) texts) else Inl ''rate limit'')"

definition fullBatchService :: IngestionService where
  "fullBatchService =
     \<lparr>svc_embed = fullBatchesOnly, svc_storeUpsert = (\<lambda>records. None),
      svc_config = defaultRagConfig\<rparr>"

text \<open>Two Cohere providers (\<open>maxBatchSize = 96\<close>): the service of the first throws on a
  full batch, the service of the second throws on a batch that is not full.\<close>

definition answerFor :: "string list \<Rightarrow> EmbeddingResponse" where
  "answerFor batch = \<lparr>resp_embeddings = map (\<lambda>t. [Fin 1, Fin 0]) batch, resp_promptTokens = None\<rparr>"

definition failsOnFull :: ApiProvider where
  "failsOnFull = cohereEmbeddingProvider ''embed-english-v3.0''
     (\<lambda>batch. if length batch = 96 then Inl ''rate limit'' else Inr (answerFor batch))"

definition failsOnRest :: ApiProvider where
  "failsOnRest = cohereEmbeddingProvider ''embed-english-v3.0''
     (\<lambda>batch. if length batch = 96 then Inr (answerFor batch) else Inl ''rate limit'')"

text \<open>The 101 chunks of \<open>manyWords\<close>, the parsed document of a text file, and the vector
  records of the first hundred chunks.\<close>

definition manyWordChunks :: "TextChunk list" where
  "manyWordChunks =
     map (\<lambda>i. mkChunk ''a a'' i (if i = 0 then 0 else 3 * int i - 1)
                (if i = 0 then 3 else 3 * int i + 2)) [0..<101]"

definition manyRecords :: "VectorRecord list" where
  "manyRecords =
     map (\<lambda>c. toVectorRecord ''doc-1'' (parsedText manyWords) c [Fin 1, Fin 0]) (take 100 manyWordChunks)"

section \<open>Query transformation and the pipeline\<close>

text \<open>\<open>toLowerCase()\<close> on a code unit: the capital letters of ASCII and of Latin-1.\<close>

definition toLowerChar :: "char \<Rightarrow> char" where
  "toLowerChar c =
     (let n = (of_char c :: nat) in
      if (65 \<le> n \<and> n \<le> 90) \<or> (192 \<le> n \<and> n \<le> 222 \<and> n \<noteq> 215) then char_of (n + 32) else c)"

text \<open>The characters matched by \<open>\w\<close> and by \<open>\d\<close>.\<close>

definition isWordChar :: "char \<Rightarrow> bool" where
  "isWordChar c \<longleftrightarrow>
     (let n = (of_char c :: nat) in
      (48 \<le> n \<and> n \<le> 57) \<or> (65 \<le> n \<and> n \<le> 90) \<or> n = 95 \<or> (97 \<le> n \<and> n \<le> 122))"

definition isDigit :: "char \<Rightarrow> bool" where
  "isDigit c \<longleftrightarrow> (let n = (of_char c :: nat) in 48 \<le> n \<and> n \<le> 57)"

definition stopWords :: "string list" where
  "stopWords =
    [
     ''the'', ''a'', ''an'', ''is'', ''are'', ''was'', ''were'', ''be'', ''been'',
     ''being'', ''have'', ''has'', ''had'', ''do'', ''does'', ''did'', ''will'',
     ''would'', ''could'', ''should'', ''may'', ''might'', ''must'', ''shall'', ''can'',
     ''need'', ''dare'', ''to'', ''of'', ''in'', ''for'', ''on'', ''with'', ''at'',
     ''by'', ''from'', ''as'', ''into'', ''through'', ''during'', ''before'', ''after'',
     ''above'', ''below'', ''between'', ''under'', ''again'', ''further'', ''then'',
     ''once'', ''here'', ''there'', ''when'', ''where'', ''why'', ''how'', ''all'',
     ''each'', ''few'', ''more'', ''most'', ''other'', ''some'', ''such'', ''no'',
     ''nor'', ''not'', ''only'', ''own'', ''same'', ''so'', ''than'', ''too'', ''very'',
     ''just'']"

text \<open>\<open>Array.from(new Set(words))\<close>: the first occurrence of every word, in order.\<close>

definition distinctWords :: "string list \<Rightarrow> string list" where
  "distinctWords ws = rev (remdups (rev ws))"

definition expandQuery :: "string \<Rightarrow> int \<Rightarrow> string" where
  "expandQuery query maxExpansions =
     (let stripped = filter (\<lambda>c. isWordChar c \<or> isSpace c) (map toLowerChar query);
          ws = filter (\<lambda>w. length w > 2 \<and> w \<notin> set stopWords) (splitWhitespace stripped);
          keywords = slice (distinctWords ws) 0 maxExpansions
      in query @ '' '' @ join '' '' keywords)"

definition hydePrompt :: "string \<Rightarrow> string" where
  "hydePrompt query =
     ''Generate a brief, factual document that would answer this question. '' @ [NL] @
     ''The document should contain relevant information that could help answer the question.'' @ [NL] @
     ''Question: '' @ query @ [NL, NL] @ ''Document:''"

definition decomposePrompt :: "string \<Rightarrow> string" where
  "decomposePrompt query =
     ''Break down this question into 2-4 simpler sub-questions that would help answer the main question.'' @ [NL] @
     ''Each sub-question should be self-contained and searchable.'' @ [NL, NL] @
     ''Main Question: '' @ query @ [NL, NL] @ ''Sub-questions (one per line):''"

text \<open>\<open>response.split("\n")\<close>: the pieces between the line feeds.\<close>

fun splitLines :: "string \<Rightarrow> string \<Rightarrow> string list" where
  "splitLines cur [] = [cur]"
| "splitLines cur (c # cs) = (if c = NL then cur # splitLines [] cs else splitLines (cur @ [c]) cs)"

text \<open>\<open>q.replace(/^\d+[\.\)]\s*/, "")\<close>: a leading number with its full stop or
  closing bracket and the white space behind it is removed.\<close>

definition stripNumbering :: "string \<Rightarrow> string" where
  "stripNumbering q =
     (let rest = dropWhile isDigit q in
      if takeWhile isDigit q \<noteq> [] \<and> rest \<noteq> [] \<and> (hd rest = CHR ''.'' \<or> hd rest = CHR '')'')
      then dropWhile isSpace (tl rest) else q)"

definition subQuestions :: "string \<Rightarrow> string list" where
  "subQuestions response =
     filter (\<lambda>q. length q > 10) (map (\<lambda>q. trim (stripNumbering q)) (splitLines [] response))"

record Citation =
  cit_chunkId :: string
  cit_documentId :: string
  cit_documentName :: string
  cit_score :: JSNum
  cit_content :: string
  cit_startChar :: "int option"
  cit_endChar :: "int option"

record RagContext =
  rc_prompt :: string
  rc_context :: string
  rc_citations :: "Citation list"
  rc_retrievalTime :: int
  rc_chunksUsed :: nat
  rc_totalTokens :: nat

definition citationPrefix :: "RagConfig \<Rightarrow> nat \<Rightarrow> DocumentChunk \<Rightarrow> string" where
  "citationPrefix config idx chunk =
     (if cfg_citationFormat config = Numbered then ''['' @ showNat (idx + 1) @ '']''
      else ''(Source: '' @ dc_documentName chunk @ '')'')"

definition toCitation :: "DocumentChunk \<Rightarrow> Citation" where
  "toCitation chunk =
     \<lparr>cit_chunkId = dc_id chunk, cit_documentId = dc_documentId chunk,
      cit_documentName = dc_documentName chunk, cit_score = chunkScore chunk,
      cit_content = dc_content chunk, cit_startChar = dc_startChar chunk,
      cit_endChar = dc_endChar chunk\<rparr>"

text \<open>\<open>Math.ceil(n / 4)\<close> on a length.\<close>

definition ceilQuarter :: "nat \<Rightarrow> nat" where
  "ceilQuarter n = (n + 3) div 4"

definition contextOf :: "RagConfig \<Rightarrow> DocumentChunk list \<Rightarrow> string" where
  "contextOf config chunks =
     join [NL, NL]
       (map (\<lambda>(idx, chunk). citationPrefix config idx chunk @ [NL] @ dc_content chunk)
          (zip [0..<length chunks] chunks))"

definition defaultSystemPrompt :: string where
  "defaultSystemPrompt = ''You are NexusAI, an AI assistant that helps users answer questions based on their connected data sources.''"

text \<open>\<open>buildRagPrompt\<close>, with \<open>buildContext\<close> unfolded into it.\<close>

definition buildRagPrompt ::
  "RagConfig \<Rightarrow> string \<Rightarrow> RetrievalResult \<Rightarrow> string option \<Rightarrow> RagContext" where
  "buildRagPrompt config userQuery retrievalResult customSystemPrompt =
     (let chunks = rr_chunks retrievalResult;
          context = contextOf config chunks;
          citations = map toCitation chunks;
          totalTokens = ceilQuarter (length context) + ceilQuarter (length (rr_query retrievalResult));
          systemPrompt = orString customSystemPrompt defaultSystemPrompt;
          instructions =
            (if cfg_includeCitations config
             then ''Answer based on the provided context. When referencing specific information, cite your sources using the provided citations.''
             else ''Answer based on the provided context.'');
          ragPrompt = systemPrompt @ [NL, NL] @ ''Context from user's data:'' @ [NL] @
            (if context = [] then ''No relevant context found.'' else context) @ [NL, NL] @
            instructions @ [NL, NL] @
            ''If the context doesn't contain enough information to answer the question, please say so.''
      in \<lparr>rc_prompt = ragPrompt, rc_context = context, rc_citations = citations,
          rc_retrievalTime = rr_executionTime retrievalResult,
          rc_chunksUsed = length chunks, rc_totalTokens = totalTokens\<rparr>)"

datatype TransformKind = Original | Expanded | Hyde | Subquestion

text \<open>The options of \<open>RagPipeline.query\<close>: the retrieval options and the three further
  fields.  The callback \<open>llmGenerate\<close> returns a text or throws.\<close>

record QueryOptions =
  qo_retrieval :: RetrievalOptions
  qo_transformQuery :: "TransformKind option"
  qo_customSystemPrompt :: "string option"
  qo_llmGenerate :: "(string \<Rightarrow> string + string) option"

record QueryResult =
  qr_ragContext :: RagContext
  qr_transformedQuery :: string

text \<open>The first part of \<open>RagPipeline.query\<close>: the query that goes to the retriever, or the
  exception of the callback.  The branches for \<open>hyde\<close> and \<open>subquestion\<close> are taken when the
  callback is given; without it no branch is taken and \<open>transformedQuery\<close> keeps its first
  value, the query.\<close>

definition transformedQueryOf :: "QueryOptions \<Rightarrow> string + string" where
  "transformedQueryOf options =
     (let query = ro_query (qo_retrieval options);
          transformQuery = (case qo_transformQuery options of None \<Rightarrow> Original | Some k \<Rightarrow> k)
      in case transformQuery of
           Expanded \<Rightarrow> Inr (expandQuery query 5)
         | Hyde \<Rightarrow>
             (case qo_llmGenerate options of
                Some llmGenerate \<Rightarrow>
                  (case llmGenerate (hydePrompt query) of
                     Inl err \<Rightarrow> Inl err
                   | Inr hypotheticalDoc \<Rightarrow> Inr hypotheticalDoc)
              | None \<Rightarrow> Inr query)
         | Subquestion \<Rightarrow>
             (case qo_llmGenerate options of
                Some llmGenerate \<Rightarrow>
                  (case llmGenerate (decomposePrompt query) of
                     Inl err \<Rightarrow> Inl err
                   | Inr response \<Rightarrow>
                       Inr (case subQuestions response of [] \<Rightarrow> query | q # qs \<Rightarrow> q))
              | None \<Rightarrow> Inr query)
         | Original \<Rightarrow> Inr query)"

text \<open>\<open>RagPipeline.query\<close>.  The pipeline hands its vector store, its embedding provider
  and its configuration to its retriever, and the configuration to its context builder:
  the retriever stands for the pipeline.\<close>

definition query :: "Retriever \<Rightarrow> int \<Rightarrow> QueryOptions \<Rightarrow> string + QueryResult" where
  "query pipeline executionTime options =
     (case transformedQueryOf options of
        Inl err \<Rightarrow> Inl err
      | Inr transformedQuery \<Rightarrow>
          (case retrieve pipeline executionTime
                  ((qo_retrieval options)\<lparr>ro_query := transformedQuery\<rparr>) of
             Inl err \<Rightarrow> Inl err
           | Inr retrievalResult \<Rightarrow>
               Inr \<lparr>qr_ragContext =
                      buildRagPrompt (retriever_config pipeline) (ro_query (qo_retrieval options))
                        retrievalResult (qo_customSystemPrompt options),
                    qr_transformedQuery = transformedQuery\<rparr>))"

text \<open>The scenario of the specification for the transformation: a request for \<open>hyde\<close>
  without the callback, and the same request for \<open>original\<close>, on the retriever of the
  scenario above; and the result of its retrieval.\<close>

definition hydeRequest :: QueryOptions where
  "hydeRequest =
     \<lparr>qo_retrieval = scenarioOptions, qo_transformQuery = Some Hyde,
      qo_customSystemPrompt = None, qo_llmGenerate = None\<rparr>"

definition originalRequest :: QueryOptions where
  "originalRequest = hydeRequest\<lparr>qo_transformQuery := Some Original\<rparr>"

definition scenarioResult :: RetrievalResult where
  "scenarioResult =
     \<lparr>rr_chunks = [toDocumentChunk (candidate ''c0'' 0 (Fin 0.9)),
                   toDocumentChunk (candidate ''c1'' 1 (Fin 0.75))],
      rr_totalChunks = 3, rr_query = ''question'', rr_executionTime = 3\<rparr>"

section \<open>The merge pass: what it guarantees\<close>

lemma mergeLoop_append: "mergeLoop m cur merged rest = merged @ mergeLoop m cur [] rest"
proof (induction rest arbitrary: cur merged)
  case Nil
  show ?case by simp
next
  case (Cons n rest)
  show ?case
  proof (cases "small m cur")
    case True
    then show ?thesis using Cons.IH [of "absorb cur n" merged] by simp
  next
    case False
    then show ?thesis using Cons.IH [of n "merged @ [cur]"] Cons.IH [of n "[cur]"] by simp
  qed
qed

lemma mergeSmallChunks_loop: "mergeSmallChunks (c # rest) m = mergeLoop m c [] rest"
  by (cases rest) (simp_all add: mergeSmallChunks_def)

lemma mergeLoop_small:
  "small m cur \<Longrightarrow> mergeLoop m cur [] (n # rest) = mergeLoop m (absorb cur n) [] rest"
  by simp

lemma mergeLoop_large:
  "\<not> small m cur \<Longrightarrow> mergeLoop m cur [] (n # rest) = cur # mergeLoop m n [] rest"
  using mergeLoop_append [of m n "[cur]" rest] by simp

lemma mergeLoop_nonempty: "mergeLoop m cur merged rest \<noteq> []"
  by (induction rest arbitrary: cur merged) auto

lemma mergeLoop_butlast: "\<forall>c\<in>set (butlast (mergeLoop m cur [] rest)). \<not> small m c"
proof (induction rest arbitrary: cur)
  case Nil
  show ?case by simp
next
  case (Cons n rest)
  show ?case
  proof (cases "small m cur")
    case True
    then show ?thesis using Cons.IH [of "absorb cur n"] by (simp only: mergeLoop_small)
  next
    case False
    then have "mergeLoop m cur [] (n # rest) = cur # mergeLoop m n [] rest"
      by (rule mergeLoop_large)
    moreover have "butlast (cur # mergeLoop m n [] rest) = cur # butlast (mergeLoop m n [] rest)"
      by (simp add: mergeLoop_nonempty)
    ultimately show ?thesis using False Cons.IH [of n] by (simp del: mergeLoop.simps)
  qed
qed

lemma mergeSmallChunks_butlast: "\<forall>c\<in>set (butlast (mergeSmallChunks chunks m)). \<not> small m c"
proof (cases chunks)
  case Nil
  then show ?thesis by (simp add: mergeSmallChunks_def)
next
  case (Cons c rest)
  then show ?thesis using mergeLoop_butlast [of m c rest] by (simp add: mergeSmallChunks_loop)
qed

lemma butlast_restAtLeast: "\<forall>c\<in>set (butlast out). \<not> small m c \<Longrightarrow> restAtLeast m out"
  unfolding restAtLeast_def small_def
  by (metis in_set_conv_nth length_butlast less_diff_conv not_less nth_butlast Suc_eq_plus1)

lemma mergeSmallChunks_restAtLeast: "restAtLeast m (mergeSmallChunks chunks m)"
  by (rule butlast_restAtLeast) (rule mergeSmallChunks_butlast)

lemma chunkByFixedSize_merged:
  "chunkByFixedSize t options = Some out \<Longrightarrow> \<exists>raw. out = mergeSmallChunks raw (minChunkSize options)"
  by (auto simp: chunkByFixedSize_def)

lemma chunkBySentence_merged:
  "chunkBySentence t options = Some out \<Longrightarrow> \<exists>raw. out = mergeSmallChunks raw (minChunkSize options)"
  by (auto simp: chunkBySentence_def split: option.splits prod.splits)

lemma chunkByParagraph_merged:
  "chunkByParagraph t options = Some out \<Longrightarrow> \<exists>raw. out = mergeSmallChunks raw (minChunkSize options)"
  by (auto simp: chunkByParagraph_def split: option.splits prod.splits)

lemma chunkText_merged:
  "chunkText t options = Some out \<Longrightarrow>
   \<exists>raw. out = mergeSmallChunks raw (minChunkSize (chunkConfig options))"
  using chunkByFixedSize_merged chunkBySentence_merged chunkByParagraph_merged
  by (auto simp: chunkText_def Let_def split: Strategy.splits)

lemma chunkBySemantic_merged:
  "chunkBySemantic t options g = Some (Inr out) \<Longrightarrow>
   \<exists>raw. out = mergeSmallChunks raw (minChunkSize options)"
  by (auto simp: chunkBySemantic_def chunkByFixedSize_def Let_def
      split: if_splits sum.splits prod.splits)

text \<open>
  Claim C7.  In every chunk sequence that comes out of the merge pass, every chunk except
  possibly the last has a content of at least \<open>minChunkSize\<close> code units.  This holds for
  \<open>mergeSmallChunks\<close> on any chunk list, hence for the result of \<open>chunkText\<close> and of each
  strategy, \<open>chunkBySemantic\<close> included, which all return through the merge pass.
\<close>

theorem merge_pass_min_size:
  "restAtLeast minSize (mergeSmallChunks chunks minSize) \<and>
   (chunkText t popts = Some out \<longrightarrow> restAtLeast (minChunkSize (chunkConfig popts)) out) \<and>
   (chunkByFixedSize t opts = Some out \<longrightarrow> restAtLeast (minChunkSize opts) out) \<and>
   (chunkBySentence t opts = Some out \<longrightarrow> restAtLeast (minChunkSize opts) out) \<and>
   (chunkByParagraph t opts = Some out \<longrightarrow> restAtLeast (minChunkSize opts) out) \<and>
   (chunkBySemantic t opts getEmbedding = Some (Inr out) \<longrightarrow> restAtLeast (minChunkSize opts) out)"
  using chunkText_merged [of t popts out] chunkByFixedSize_merged [of t opts out]
    chunkBySentence_merged [of t opts out] chunkByParagraph_merged [of t opts out]
    chunkBySemantic_merged [of t opts getEmbedding out]
  by (auto simp: mergeSmallChunks_restAtLeast)

text \<open>
  An instance of the theorem for claim C7: the fixed strategy on four words, where the
  first window is shorter than \<open>minChunkSize = 4\<close> and is merged with the second.
\<close>

theorem merge_pass_min_size_witness:
  "chunkText ''a b c d''
     \<lparr>p_strategy = Some Fixed, p_chunkSize = Some 2, p_chunkOverlap = Some 1, p_minChunkSize = Some 4\<rparr>
   = Some [mkChunk (''a b'' @ [NL, NL] @ ''b c'') 0 0 5, mkChunk ''c d'' 2 5 8]
   \<and> Suc 0 < length [mkChunk (''a b'' @ [NL, NL] @ ''b c'') 0 0 5, mkChunk ''c d'' 2 5 8]
   \<and> (4::int) \<le> int (length (content ([mkChunk (''a b'' @ [NL, NL] @ ''b c'') 0 0 5, mkChunk ''c d'' 2 5 8] ! 0)))"
proof -
  let ?popts = "\<lparr>p_strategy = Some Fixed, p_chunkSize = Some 2, p_chunkOverlap = Some 1, p_minChunkSize = Some 4\<rparr>"
  let ?out = "[mkChunk (''a b'' @ [NL, NL] @ ''b c'') 0 0 5, mkChunk ''c d'' 2 5 8]"
  have e: "chunkText ''a b c d'' ?popts = Some ?out"
    by code_simp
  have m: "minChunkSize (chunkConfig ?popts) = 4"
    by (simp add: chunkConfig_def orNum_def)
  show ?thesis
    using e m merge_pass_min_size [of _ _ "''a b c d''" ?popts ?out]
    by (simp add: restAtLeast_def mkChunk_def)
qed

text \<open>
  Claim C8 as stated: a chunk below \<open>minChunkSize\<close> that is not the first one is merged
  into the previous chunk, and merging goes on until no chunk is below the threshold or
  one chunk is left.  It fails on the two chunks \<open>aaaa\<close>, \<open>b\<close> with threshold 2: the
  second chunk is below the threshold and is not merged into the first; both are returned.
  With a third chunk \<open>cccc\<close> behind them, \<open>b\<close> is merged with the chunk after it, and
  the chunk before it is left as it was.
\<close>

theorem merge_into_previous_counterexample:
  "mergeSmallChunks [mkChunk ''aaaa'' 0 0 4, mkChunk ''b'' 1 5 6] 2
     = [mkChunk ''aaaa'' 0 0 4, mkChunk ''b'' 1 5 6]
   \<and> small 2 (mkChunk ''b'' 1 5 6)
   \<and> mergeSmallChunks [mkChunk ''aaaa'' 0 0 4, mkChunk ''b'' 1 5 6, mkChunk ''cccc'' 2 7 11] 2
     = [mkChunk ''aaaa'' 0 0 4, mkChunk (''b'' @ [NL, NL] @ ''cccc'') 1 5 11]"
  by (simp add: mergeSmallChunks_def small_def absorb_def mkChunk_def)

lemma join_Cons: "xs \<noteq> [] \<Longrightarrow> join sep (x # xs) = x @ sep @ join sep xs"
  by (cases xs) simp_all

lemma merge_step_small:
  "small m c \<Longrightarrow> mergeSmallChunks (c # n # rest) m = mergeSmallChunks (absorb c n # rest) m"
  by (simp add: mergeSmallChunks_loop del: mergeLoop.simps) simp

lemma merge_step_large:
  "\<not> small m c \<Longrightarrow> mergeSmallChunks (c # n # rest) m = c # mergeSmallChunks (n # rest) m"
  by (simp add: mergeSmallChunks_loop mergeLoop_large del: mergeLoop.simps)

lemma merge_contents:
  "join [NL, NL] (map content (mergeSmallChunks cs m)) = join [NL, NL] (map content cs)"
proof (induction "length cs" arbitrary: cs rule: less_induct)
  case less
  show ?case
  proof (cases cs)
    case Nil
    then show ?thesis by (simp add: mergeSmallChunks_def)
  next
    case (Cons c tl)
    note c = this
    show ?thesis
    proof (cases tl)
      case Nil
      then show ?thesis using c by (simp add: mergeSmallChunks_def)
    next
      case (Cons n rest)
      show ?thesis
      proof (cases "small m c")
        case True
        have "length (absorb c n # rest) < length cs" using c Cons by simp
        from less [OF this] have
          "join [NL, NL] (map content (mergeSmallChunks (absorb c n # rest) m))
             = join [NL, NL] (map content (absorb c n # rest))" .
        also have "\<dots> = join [NL, NL] (map content (c # n # rest))"
          by (cases rest) (simp_all add: absorb_def)
        finally show ?thesis
          using c Cons merge_step_small [OF True, of n rest] by simp
      next
        case False
        have "length (n # rest) < length cs" using c Cons by simp
        from less [OF this] have IH:
          "join [NL, NL] (map content (mergeSmallChunks (n # rest) m))
             = join [NL, NL] (map content (n # rest))" .
        have ne: "map content (mergeSmallChunks (n # rest) m) \<noteq> []"
          by (simp add: mergeSmallChunks_loop mergeLoop_nonempty del: mergeLoop.simps)
        have "join [NL, NL] (map content (c # mergeSmallChunks (n # rest) m))
                = content c @ [NL, NL] @ join [NL, NL] (map content (mergeSmallChunks (n # rest) m))"
          using join_Cons [OF ne] by simp
        also have "\<dots> = join [NL, NL] (map content (c # n # rest))"
          by (simp add: IH)
        finally show ?thesis
          using c Cons merge_step_large [OF False, of n rest] by simp
      qed
    qed
  qed
qed

text \<open>
  Claim C8 as amended.  The merge pass reads the chunks front to back.  A chunk (or a run
  already merged) whose content is shorter than \<open>minChunkSize\<close> takes in the chunk that
  follows it: the contents are joined by a blank line, \<open>endChar\<close> becomes that of the
  chunk taken in, \<open>index\<close> and \<open>startChar\<close> stay.  This repeats on the merged run.  A
  chunk that is long enough is emitted as it is and the pass goes on with the next one.
  A list of at most one chunk is returned unchanged, so the last chunk of the result can
  stay below the threshold.  No text is lost: the contents of the result, joined by blank
  lines, are the contents of the input joined by blank lines.
\<close>

theorem merge_forward:
  "mergeSmallChunks [] m = [] \<and>
   mergeSmallChunks [c] m = [c] \<and>
   (small m c \<longrightarrow> mergeSmallChunks (c # n # rest) m = mergeSmallChunks (absorb c n # rest) m) \<and>
   (\<not> small m c \<longrightarrow> mergeSmallChunks (c # n # rest) m = c # mergeSmallChunks (n # rest) m) \<and>
   absorb c n = \<lparr>content = content c @ [NL, NL] @ content n, index = index c,
                 startChar = startChar c, endChar = endChar n\<rparr> \<and>
   join [NL, NL] (map content (mergeSmallChunks cs m)) = join [NL, NL] (map content cs)"
  using merge_step_small [of m c n rest] merge_step_large [of m c n rest] merge_contents [of cs m]
  by (simp add: mergeSmallChunks_def absorb_def)

text \<open>
  Instances of the theorem for claim C8: the small chunk \<open>b\<close> takes in the chunk \<open>cccc\<close>
  behind it, and the chunk \<open>aaaa\<close>, which is long enough, is emitted as it is.
\<close>

theorem merge_forward_witness:
  "small 2 (mkChunk ''b'' 1 5 6) \<and>
   mergeSmallChunks [mkChunk ''b'' 1 5 6, mkChunk ''cccc'' 2 7 11] 2
     = mergeSmallChunks [absorb (mkChunk ''b'' 1 5 6) (mkChunk ''cccc'' 2 7 11)] 2 \<and>
   absorb (mkChunk ''b'' 1 5 6) (mkChunk ''cccc'' 2 7 11)
     = \<lparr>content = ''b'' @ [NL, NL] @ ''cccc'', index = 1, startChar = 5, endChar = 11\<rparr> \<and>
   \<not> small 2 (mkChunk ''aaaa'' 0 0 4) \<and>
   mergeSmallChunks [mkChunk ''aaaa'' 0 0 4, mkChunk ''b'' 1 5 6] 2
     = mkChunk ''aaaa'' 0 0 4 # mergeSmallChunks [mkChunk ''b'' 1 5 6] 2"
  using merge_forward [of 2 "mkChunk ''b'' 1 5 6" "mkChunk ''cccc'' 2 7 11" "[]"]
    merge_forward [of 2 "mkChunk ''aaaa'' 0 0 4" "mkChunk ''b'' 1 5 6" "[]"]
  by (simp add: small_def mkChunk_def)

section \<open>Chunk indices and offsets\<close>

text \<open>
  Claim C5 says that the chunks returned after the merge pass carry the indices
  \<open>0, 1, 2, ...\<close> without a gap and non-decreasing \<open>startChar\<close> and \<open>endChar\<close>.
  The program at two inputs: with the fixed strategy on \<open>a b c d\<close> (windows of two words,
  overlap one, \<open>minChunkSize = 4\<close>) the merge pass joins the windows 0 and 1 and keeps
  the index 2 of the third, so the indices are \<open>0, 2\<close>; with the paragraph strategy on
  a paragraph of nine letters followed by one of two (\<open>chunkSize = 10\<close>, overlap 2) the
  second chunk ends at 8, before the end 9 of the first.
\<close>

theorem chunk_sequence_defects:
  "chunkText ''a b c d''
     \<lparr>p_strategy = Some Fixed, p_chunkSize = Some 2, p_chunkOverlap = Some 1, p_minChunkSize = Some 4\<rparr>
   = Some [mkChunk (''a b'' @ [NL, NL] @ ''b c'') 0 0 5, mkChunk ''c d'' 2 5 8]
   \<and> chunkText (''aaaaaaaaa'' @ [NL, NL] @ ''bb'')
     \<lparr>p_strategy = Some Paragraph, p_chunkSize = Some 10, p_chunkOverlap = Some 2, p_minChunkSize = Some 1\<rparr>
   = Some [mkChunk ''aaaaaaaaa'' 0 0 9, mkChunk (''aa'' @ [NL, NL] @ ''bb'') 1 2 8]"
  by code_simp

section \<open>Context truncation: the cut\<close>

lemma lastIndexOf_bounds: "- 1 \<le> lastIndexOf s c \<and> lastIndexOf s c < int (length s)"
  by (induction s) (auto simp: Let_def)

lemma lastIndexOf_nth: "0 \<le> lastIndexOf s c \<Longrightarrow> s ! nat (lastIndexOf s c) = c"
proof (induction s)
  case Nil then show ?case by simp
next
  case (Cons x xs)
  show ?case
  proof (cases "0 \<le> lastIndexOf xs c")
    case True
    then have "nat (lastIndexOf xs c + 1) = Suc (nat (lastIndexOf xs c))" by simp
    with True Cons.IH show ?thesis by (simp add: Let_def)
  next
    case False
    with Cons.prems show ?thesis by (auto simp: Let_def split: if_splits)
  qed
qed

lemma lastIndexOf_after: "lastIndexOf s c < int j \<Longrightarrow> j < length s \<Longrightarrow> s ! j \<noteq> c"
proof (induction s arbitrary: j)
  case Nil then show ?case by simp
next
  case (Cons x xs)
  show ?case
  proof (cases j)
    case 0
    with Cons.prems show ?thesis using lastIndexOf_bounds [of xs c] by (auto simp: Let_def split: if_splits)
  next
    case (Suc i)
    with Cons.prems have "lastIndexOf xs c < int i" "i < length xs"
      using lastIndexOf_bounds [of xs c] by (auto simp: Let_def split: if_splits)
    then show ?thesis using Cons.IH Suc by simp
  qed
qed


lemma slice0_nonneg: "0 \<le> e \<Longrightarrow> slice xs 0 e = take (nat e) xs"
  by (simp add: slice_def relIndex_def min_def)

lemma cutoffOf_bounds: "- 1 \<le> cutoffOf s \<and> cutoffOf s < int (length s)"
  using lastIndexOf_bounds [of s "CHR ''.''"] lastIndexOf_bounds [of s NL]
  by (simp add: cutoffOf_def max_def)

lemma cutoffOf_boundary: "0 \<le> cutoffOf s \<Longrightarrow> isBoundary (s ! nat (cutoffOf s))"
  using lastIndexOf_nth [of s "CHR ''.''"] lastIndexOf_nth [of s NL]
  by (auto simp: cutoffOf_def isBoundary_def max_def split: if_splits)

lemma cutoffOf_after: "cutoffOf s < int j \<Longrightarrow> j < length s \<Longrightarrow> \<not> isBoundary (s ! j)"
  using lastIndexOf_after [of s "CHR ''.''" j] lastIndexOf_after [of s NL j]
  by (auto simp: cutoffOf_def isBoundary_def)

lemma lastBoundary_cutoff:
  assumes "b < length t" and "lastBoundary t b k"
  shows "cutoffOf (take b t) = int k"
proof -
  let ?s = "take b t"
  from assms have len: "length ?s = b" by (simp add: min_def)
  from assms have kb: "k < b" and kB: "isBoundary (t ! k)"
    and aft: "\<And>j. k < j \<Longrightarrow> j < b \<Longrightarrow> \<not> isBoundary (t ! j)"
    by (auto simp: lastBoundary_def)
  have k: "isBoundary (?s ! k)" using kb kB by simp
  have after: "\<not> isBoundary (?s ! j)" if "k < j" "j < b" for j
    using aft [OF that] that by simp
  have "\<not> cutoffOf ?s < int k"
  proof
    assume "cutoffOf ?s < int k"
    moreover have "k < length ?s" using kb len by simp
    ultimately have "\<not> isBoundary (?s ! k)" by (rule cutoffOf_after)
    with k show False by contradiction
  qed
  moreover have "\<not> int k < cutoffOf ?s"
  proof
    assume lt: "int k < cutoffOf ?s"
    then have nn: "0 \<le> cutoffOf ?s" by simp
    have "nat (cutoffOf ?s) < b" using cutoffOf_bounds [of ?s] len nn by linarith
    moreover have "k < nat (cutoffOf ?s)" using lt by linarith
    ultimately show False using after cutoffOf_boundary [OF nn] by blast
  qed
  ultimately show ?thesis by linarith
qed

lemma cutoff_lastBoundary:
  assumes "b < length t" and "0 \<le> cutoffOf (take b t)"
  shows "lastBoundary t b (nat (cutoffOf (take b t)))"
proof -
  let ?s = "take b t"
  from assms have len: "length ?s = b" by (simp add: min_def)
  have lt: "nat (cutoffOf ?s) < b" using cutoffOf_bounds [of ?s] len assms(2) by linarith
  have "isBoundary (t ! nat (cutoffOf ?s))"
    using cutoffOf_boundary [OF assms(2)] lt by simp
  moreover have "\<not> isBoundary (t ! j)" if "nat (cutoffOf ?s) < j" "j < b" for j
  proof -
    have "cutoffOf ?s < int j" using that by linarith
    then show ?thesis using cutoffOf_after [of ?s j] that len by simp
  qed
  ultimately show ?thesis using lt assms(1) by (auto simp: lastBoundary_def)
qed

lemma truncateContext_long:
  assumes "0 \<le> maxTokens" and "int (length t) > 4 * maxTokens"
  shows "truncateContext t maxTokens =
     (let s = take (nat (4 * maxTokens)) t in
      if real_of_int (cutoffOf s) > 0.8 * real_of_int (4 * maxTokens)
      then take (nat (cutoffOf s + 1)) s else s @ ''...'')"
proof -
  let ?s = "take (nat (4 * maxTokens)) t"
  have m: "maxTokens * 4 = 4 * maxTokens" by simp
  have sl: "slice t 0 (4 * maxTokens) = ?s"
    using assms(1) by (intro slice0_nonneg) simp
  have c: "0 \<le> cutoffOf ?s + 1"
    using cutoffOf_bounds [of ?s] by linarith
  have sl2: "slice ?s 0 (cutoffOf ?s + 1) = take (nat (cutoffOf ?s + 1)) ?s"
    using c by (rule slice0_nonneg)
  have r: "real_of_int (4 * maxTokens) * 0.8 = 0.8 * real_of_int (4 * maxTokens)"
    by (rule mult.commute)
  have "\<not> int (length t) \<le> 4 * maxTokens" using assms(2) by simp
  then show ?thesis
    unfolding truncateContext_def m Let_def sl cutoffOf_def [symmetric] sl2 r
    by (simp only: if_False)
qed

text \<open>
  Claim C9 as amended: for every text and every token budget \<open>maxTokens \<ge> 0\<close>.  A text
  of at most \<open>4 * maxTokens\<close> characters is returned unchanged.  A longer text is cut
  after the last full stop or line feed among its first \<open>4 * maxTokens\<close> characters when
  the position of that character is strictly greater than 80% of the budget; when there is
  no such character or its position is at most 80% of the budget, the result is the first
  \<open>4 * maxTokens\<close> characters followed by three dots.
\<close>

theorem truncateContext_spec:
  assumes "0 \<le> maxTokens"
  shows "(int (length t) \<le> 4 * maxTokens \<longrightarrow> truncateContext t maxTokens = t) \<and>
         (int (length t) > 4 * maxTokens \<longrightarrow>
            (\<forall>k. lastBoundary t (nat (4 * maxTokens)) k \<and> real k > 0.8 * real_of_int (4 * maxTokens)
                  \<longrightarrow> truncateContext t maxTokens = take (Suc k) t) \<and>
            ((\<forall>k. lastBoundary t (nat (4 * maxTokens)) k \<longrightarrow> real k \<le> 0.8 * real_of_int (4 * maxTokens))
                  \<longrightarrow> truncateContext t maxTokens = take (nat (4 * maxTokens)) t @ ''...''))"
proof (intro conjI impI allI)
  assume "int (length t) \<le> 4 * maxTokens"
  then show "truncateContext t maxTokens = t"
    by (simp add: truncateContext_def mult.commute)
next
  fix k
  assume long: "4 * maxTokens < int (length t)"
    and k: "lastBoundary t (nat (4 * maxTokens)) k \<and> real k > 0.8 * real_of_int (4 * maxTokens)"
  let ?b = "nat (4 * maxTokens)"
  have b: "?b < length t" using long assms by linarith
  have c: "cutoffOf (take ?b t) = int k" using lastBoundary_cutoff [OF b] k by blast
  have kb: "k < ?b" using k by (simp add: lastBoundary_def)
  have "truncateContext t maxTokens = take (nat (int k + 1)) (take ?b t)"
    using truncateContext_long [OF assms long] k c by (simp add: Let_def)
  also have "\<dots> = take (Suc k) t"
    using kb by (simp add: min_def nat_add_distrib)
  finally show "truncateContext t maxTokens = take (Suc k) t" .
next
  assume long: "4 * maxTokens < int (length t)"
    and no: "\<forall>k. lastBoundary t (nat (4 * maxTokens)) k \<longrightarrow> real k \<le> 0.8 * real_of_int (4 * maxTokens)"
  let ?b = "nat (4 * maxTokens)"
  have b: "?b < length t" using long assms by linarith
  have "\<not> real_of_int (cutoffOf (take ?b t)) > 0.8 * real_of_int (4 * maxTokens)"
  proof (cases "0 \<le> cutoffOf (take ?b t)")
    case True
    then have "real (nat (cutoffOf (take ?b t))) \<le> 0.8 * real_of_int (4 * maxTokens)"
      using cutoff_lastBoundary [OF b True] no by blast
    moreover have "real (nat (cutoffOf (take ?b t))) = real_of_int (cutoffOf (take ?b t))"
      using True by simp
    ultimately show ?thesis by linarith
  next
    case False
    then have "real_of_int (cutoffOf (take ?b t)) < 0" by simp
    moreover have "0 \<le> 0.8 * real_of_int (4 * maxTokens)" using assms by simp
    ultimately show ?thesis by linarith
  qed
  then show "truncateContext t maxTokens = take ?b t @ ''...''"
    using truncateContext_long [OF assms long] by (simp add: Let_def)
qed

text \<open>
  A text of 1600 letters, a full stop and 500 letters, with the budget of 500 tokens that
  the chat route passes: the last boundary among the first 2000 characters is the full
  stop at position 1600, and the result is the first 2000 characters and the dots.
\<close>

lemma boundary_at_1600:
  "lastBoundary (replicate 1600 (CHR ''a'') @ ''.'' @ replicate 500 (CHR ''b'')) (nat (4 * 500)) 1600 \<and>
   truncateContext (replicate 1600 (CHR ''a'') @ ''.'' @ replicate 500 (CHR ''b'')) 500
     = replicate 1600 (CHR ''a'') @ ''.'' @ replicate 399 (CHR ''b'') @ ''...''"
proof -
  let ?t = "replicate 1600 (CHR ''a'') @ ''.'' @ replicate 500 (CHR ''b'')"
  have len: "length ?t = 2101" by simp
  have at: "?t ! 1600 = CHR ''.''" by (simp add: nth_append)
  have after: "\<not> isBoundary (?t ! j)" if "1600 < j" "j < 2000" for j
  proof -
    from that have "?t ! j = CHR ''b''" by (simp add: nth_append nth_Cons')
    then show ?thesis by (simp add: isBoundary_def)
  qed
  have lb: "lastBoundary ?t (nat (4 * 500)) 1600"
    using at after by (simp add: lastBoundary_def isBoundary_def)
  have b: "nat (4 * 500) < length ?t" by simp
  have c: "cutoffOf (take (nat (4 * 500)) ?t) = 1600"
    using lastBoundary_cutoff [OF b lb] by simp
  have long: "int (length ?t) > 4 * 500" by simp
  have "truncateContext ?t 500 = take (nat (4 * 500)) ?t @ ''...''"
    using truncateContext_long [of 500 ?t] long c by (simp add: Let_def)
  also have "take (nat (4 * 500)) ?t = replicate 1600 (CHR ''a'') @ ''.'' @ replicate 399 (CHR ''b'')"
    by simp
  finally show ?thesis using lb by simp
qed

text \<open>
  Claim C9 as stated takes the boundary when it lies within the last 20% of the budget.
  With a budget of 5 tokens, 20 characters, the last 20% are the positions 16 to 19.  In
  the text \<open>abcdefghijklmnop.rstuvwxyz\<close> the last boundary among the first 20 characters
  is the full stop at position 16.  The test \<open>16 > 16\<close> fails, and the program does not
  cut there: it returns the first 20 characters and the dots.  The same happens with the
  budget of 500 tokens and a full stop at position 1600, the first of the last 400.
\<close>

theorem truncateContext_boundary_at_80_percent:
  "int (length ''abcdefghijklmnop.rstuvwxyz'') > 4 * 5 \<and>
   lastBoundary ''abcdefghijklmnop.rstuvwxyz'' (nat (4 * 5)) 16 \<and>
   real 16 \<ge> 0.8 * real_of_int (4 * 5) \<and>
   truncateContext ''abcdefghijklmnop.rstuvwxyz'' 5 = ''abcdefghijklmnop.rst...'' \<and>
   truncateContext ''abcdefghijklmnop.rstuvwxyz'' 5 \<noteq> take (Suc 16) ''abcdefghijklmnop.rstuvwxyz'' \<and>
   lastBoundary (replicate 1600 (CHR ''a'') @ ''.'' @ replicate 500 (CHR ''b'')) (nat (4 * 500)) 1600 \<and>
   real 1600 \<ge> 0.8 * real_of_int (4 * 500) \<and>
   truncateContext (replicate 1600 (CHR ''a'') @ ''.'' @ replicate 500 (CHR ''b'')) 500
     = replicate 1600 (CHR ''a'') @ ''.'' @ replicate 399 (CHR ''b'') @ ''...''"
proof -
  let ?t = "''abcdefghijklmnop.rstuvwxyz''"
  have after: "\<not> isBoundary (?t ! j)" if "16 < j" "j < 20" for j
  proof -
    from that have "j = 17 \<or> j = 18 \<or> j = 19" by arith
    then show ?thesis by (auto simp: isBoundary_def)
  qed
  have "isBoundary (?t ! 16)" by (simp add: isBoundary_def)
  then have lb: "lastBoundary ?t (nat (4 * 5)) 16"
    using after by (simp add: lastBoundary_def)
  have r: "truncateContext ?t 5 = ''abcdefghijklmnop.rst...''"
    by (simp add: truncateContext_def slice_def relIndex_def Let_def)
  have small: "int (length ?t) > 4 * 5 \<and> lastBoundary ?t (nat (4 * 5)) 16 \<and>
      real 16 \<ge> 0.8 * real_of_int (4 * 5) \<and> truncateContext ?t 5 = ''abcdefghijklmnop.rst...'' \<and>
      truncateContext ?t 5 \<noteq> take (Suc 16) ?t"
    using lb r by simp
  have "real 1600 \<ge> 0.8 * real_of_int (4 * 500)" by simp
  then show ?thesis using small boundary_at_1600 by blast
qed

text \<open>
  The budget of the amended claim is not negative.  With the budget \<open>-1\<close> the text
  \<open>ab.cd\<close> is longer than the budget of \<open>-4\<close> characters; \<open>slice(0, -4)\<close> keeps its first
  character, no boundary is found (\<open>cutoff = -1\<close>), and \<open>-1 > -3.2\<close> selects the cut at
  \<open>cutoff + 1 = 0\<close>: the result is the empty string.
\<close>

lemma truncateContext_negative_budget:
  "truncateContext ''ab.cd'' (- 1) = [] \<and> \<not> int (length ''ab.cd'') \<le> 4 * (- 1)"
  by (simp add: truncateContext_def slice_def relIndex_def Let_def)

text \<open>
  An instance of the theorem for claim C9: the full stop at position 17 of a text of 27
  characters, with a budget of 5 tokens.
\<close>

theorem truncateContext_spec_witness:
  "(0::int) \<le> 5 \<and> int (length ''ab.cdefghijklmnop.rstuvwxyz'') > 4 * 5 \<and>
   lastBoundary ''ab.cdefghijklmnop.rstuvwxyz'' (nat (4 * 5)) 17 \<and>
   real 17 > 0.8 * real_of_int (4 * 5) \<and>
   truncateContext ''ab.cdefghijklmnop.rstuvwxyz'' 5 = ''ab.cdefghijklmnop.''"
proof -
  let ?t = "''ab.cdefghijklmnop.rstuvwxyz''"
  have after: "\<not> isBoundary (?t ! j)" if "17 < j" "j < 20" for j
  proof -
    from that have "j = 18 \<or> j = 19" by arith
    then show ?thesis by (auto simp: isBoundary_def)
  qed
  have "isBoundary (?t ! 17)" by (simp add: isBoundary_def)
  then have lb: "lastBoundary ?t (nat (4 * 5)) 17"
    using after by (simp add: lastBoundary_def)
  have nonneg: "(0::int) \<le> 5" by simp
  have long: "int (length ?t) > 4 * 5" by simp
  have gt: "real 17 > 0.8 * real_of_int (4 * 5)" by simp
  have "truncateContext ?t 5 = take (Suc 17) ?t"
    using truncateContext_spec [OF nonneg, of ?t] long lb gt by blast
  then have "truncateContext ?t 5 = ''ab.cdefghijklmnop.''" by simp
  then show ?thesis using nonneg long lb gt by blast
qed

section \<open>The internal vector store: scores\<close>

lemma maxFinite_pos: "0 < maxFinite"
  unfolding maxFinite_def by simp














lemma set_insertResult: "set (insertResult x ys) = insert x (set ys)"
  by (induction ys) auto

lemma set_sortByScore: "set (sortByScore rs) = set rs"
  by (induction rs) (simp_all add: sortByScore_def set_insertResult)


lemmas eval_store = search_def scored_def findMany_def prismaTake_def upsertChunk_def createRow_def
  updateRow_def orKeep_def List.map_filter_def withDocument_def findDocument_def documentMatches_def
  toResult_def resultWith_def scoreOf_def storedVector_def mdGet_def cosineSimilarity_def
  magnitude_def dotProduct_def elementAt_def sortByScore_def compareScores_def jsSub_def fin_def
  maxFinite_def slice_def relIndex_def exampleStore_def exampleDocument_def
  recordA_def recordB_def userFilter_def resultOf_def





text \<open>
  Outside the three kinds the computation of a score can throw or give \<open>NaN\<close>.  A stored
  text of the length of the query embedding has no method \<open>reduce\<close>.  An element of a
  stored array may have no conversion to a number.  An element that converts to \<open>NaN\<close>
  makes the score \<open>NaN\<close>.  With components of the size of \<open>10^200\<close> the dot product and
  both magnitudes are infinite, and their quotient is \<open>NaN\<close>.
\<close>

lemma cosineSimilarity_outside:
  "cosineSimilarity [Fin 1, Fin 0] (JString ''ab'') = Inl TypeError \<and>
   cosineSimilarity [Fin 1, Fin 0] (JArray [Number (Fin 1), Unconvertible]) = Inl TypeError \<and>
   cosineSimilarity [Fin 1, Fin 0] (JArray [Number NaN, Number (Fin 0)]) = Inr NaN \<and>
   cosineSimilarity [Fin (10 ^ 200), Fin 0] (JArray [Number (Fin (10 ^ 200)), Number (Fin 0)]) = Inr NaN"
  by (simp add: cosineSimilarity_def dotProduct_def elementAt_def magnitude_def fin_def maxFinite_def)

section \<open>The internal vector store: a record and its own embedding\<close>

text \<open>
  Claim C1 says that after \<open>upsert([r])\<close> a search with \<open>r.embedding\<close> and a filter that
  matches \<open>r\<close> returns \<open>r\<close> with the maximal score.  In the program \<open>upsert\<close> writes no
  column from \<open>r.embedding\<close>, and \<open>search\<close> scores a row by the key \<open>embeddingVector\<close> of
  its metadata.  The store \<open>exampleStore\<close> holds \<open>recordB\<close>, whose metadata has that key.
  After \<open>upsert([recordA])\<close> the search with the embedding of \<open>recordA\<close> and \<open>topK = 1\<close>
  returns \<open>recordB\<close> alone; with \<open>topK = 2\<close> it returns \<open>recordB\<close> with score 1 before
  \<open>recordA\<close> with score 0.
\<close>

theorem upsert_then_search_misses_record:
  "upsertChunk (r\<lparr>vr_embedding := e\<rparr>) rows = upsertChunk r rows \<and>
   search (upsert exampleStore [recordA]) (vr_embedding recordA) 1 userFilter
     = Inr [resultOf recordB (Fin 1)] \<and>
   search (upsert exampleStore [recordA]) (vr_embedding recordA) 2 userFilter
     = Inr [resultOf recordB (Fin 1), resultOf recordA (Fin 0)]"
  by (simp add: eval_store)

section \<open>Retrieval: bounds and order\<close>

lemma subseq_slice: "subseq (slice xs s e) xs"
proof -
  have "subseq (take n (drop m xs)) xs" for n m
    by (meson prefix_imp_subseq take_is_prefix suffix_imp_subseq suffix_drop subseq_order.trans)
  then show ?thesis by (simp add: slice_def Let_def)
qed

lemma descending_slice: "descending (map f xs) \<Longrightarrow> descending (map f (slice xs s e))"
  unfolding descending_def slice_def Let_def
  by (simp add: sorted_wrt_map)

lemma descending_filter: "descending (map f xs) \<Longrightarrow> descending (map f (filter P xs))"
  unfolding descending_def by (simp add: sorted_wrt_map sorted_wrt_filter)

lemma jsGe_not_NaN: "jsGe x y \<Longrightarrow> x \<noteq> NaN \<and> y \<noteq> NaN"
  by (cases x; cases y) simp_all

lemma jsGe_total: "x \<noteq> NaN \<Longrightarrow> y \<noteq> NaN \<Longrightarrow> \<not> jsGe x y \<Longrightarrow> jsGe y x"
  by (cases x; cases y) simp_all

lemma jsGe_trans: "jsGe x y \<Longrightarrow> jsGe y z \<Longrightarrow> jsGe x z"
  by (cases x; cases y; cases z) simp_all

lemma jsNegative_fin: "jsNegative (fin z) \<longleftrightarrow> z < 0"
  using maxFinite_pos by (auto simp: fin_def)

lemma jsNegative_sub: "x \<noteq> NaN \<Longrightarrow> y \<noteq> NaN \<Longrightarrow> jsNegative (jsSub x y) \<longleftrightarrow> \<not> jsGe x y"
  by (cases x; cases y) (auto simp: jsSub_def jsNegative_fin)

lemma insertResult_descending:
  assumes "res_score x \<noteq> NaN" and "NaN \<notin> res_score ` set ys"
    and "sorted_wrt (\<lambda>a b. jsGe (res_score a) (res_score b)) ys"
  shows "sorted_wrt (\<lambda>a b. jsGe (res_score a) (res_score b)) (insertResult x ys)"
  using assms(2,3)
proof (induction ys)
  case Nil then show ?case by simp
next
  case (Cons y ys)
  have y: "res_score y \<noteq> NaN" using Cons.prems(1) by auto
  have neg: "jsNegative (compareScores y x) \<longleftrightarrow> \<not> jsGe (res_score x) (res_score y)"
    unfolding compareScores_def using assms(1) y by (rule jsNegative_sub)
  show ?case
  proof (cases "jsGe (res_score x) (res_score y)")
    case True
    have "\<forall>b \<in> set ys. jsGe (res_score x) (res_score b)"
      using Cons.prems(2) True jsGe_trans by auto
    then show ?thesis using True neg Cons.prems(2) by simp
  next
    case False
    then have yx: "jsGe (res_score y) (res_score x)"
      using jsGe_total [OF assms(1) y] by simp
    have IH: "sorted_wrt (\<lambda>a b. jsGe (res_score a) (res_score b)) (insertResult x ys)"
      using Cons.IH Cons.prems by auto
    show ?thesis using False neg yx IH Cons.prems(2) by (simp add: set_insertResult)
  qed
qed

lemma descending_sortByScore:
  "NaN \<notin> res_score ` set rs \<Longrightarrow> descending (map res_score (sortByScore rs))"
proof -
  assume n: "NaN \<notin> res_score ` set rs"
  have "sorted_wrt (\<lambda>a b. jsGe (res_score a) (res_score b)) (foldr insertResult rs [])"
    using n
  proof (induction rs)
    case Nil then show ?case by simp
  next
    case (Cons r rs)
    have "NaN \<notin> res_score ` set (foldr insertResult rs [])"
      using Cons.prems set_sortByScore [of rs] by (simp add: sortByScore_def)
    moreover have "res_score r \<noteq> NaN" using Cons.prems by auto
    moreover have "sorted_wrt (\<lambda>a b. jsGe (res_score a) (res_score b)) (foldr insertResult rs [])"
      using Cons by simp
    ultimately show ?case by (simp add: insertResult_descending)
  qed
  then show ?thesis by (simp add: descending_def sortByScore_def sorted_wrt_map)
qed

lemma search_descending:
  assumes "scored db q topK flt = Inr results" and "NaN \<notin> res_score ` set results"
  shows "\<exists>rs. search db q topK flt = Inr rs \<and> descending (map res_score rs)"
proof -
  have "search db q topK flt = Inr (slice (sortByScore results) 0 topK)"
    using assms(1) by (simp add: search_def)
  moreover have "descending (map res_score (slice (sortByScore results) 0 topK))"
    using descending_sortByScore [OF assms(2)] by (rule descending_slice)
  ultimately show ?thesis by blast
qed

lemma chunkScore_toDocumentChunk:
  "res_score r \<noteq> NaN \<Longrightarrow> chunkScore (toDocumentChunk r) = res_score r"
  by (simp add: chunkScore_def toDocumentChunk_def orZero_def)

lemma retrieve_chunks:
  assumes "retrieve rt t opts = Inr res" and "ro_useRag opts \<noteq> Some False"
  shows "\<exists>q results.
           embeddingProvider_embedSingle rt (ro_query opts) = Inr q \<and>
           vectorStore_search rt (er_embedding q) (effectiveTopK rt opts * 2) (buildFilter opts)
             = Inr results \<and>
           rr_chunks res = map toDocumentChunk
             (slice (filter (\<lambda>r. jsGe (res_score r) (Fin (effectiveThreshold rt opts))) results) 0
                (effectiveTopK rt opts)) \<and>
           rr_totalChunks res = length results"
  using assms
  by (auto simp: retrieve_def Let_def rerankResults_def split: sum.splits if_splits)

text \<open>
  Claim C2 as amended: for every call of \<open>Retriever.retrieve\<close> that returns, with
  \<open>useRag\<close> not false and an effective \<open>topK\<close> that is not negative.  The list of chunks
  has at most \<open>topK\<close> elements; every chunk has a score of at least the effective
  \<open>similarityThreshold\<close>; the chunks are a subsequence of the results of the vector store,
  in the order of the store, so that they are in descending order of score when the
  results of the store are; and when the store returns three candidates of scores 0.9,
  0.75 and 0.5, the threshold is 0.7 and \<open>topK\<close> is at least 2, exactly the first two are
  returned, in that order.  The results of the internal store are in descending order of
  score whenever its search computes all scores and none of them is \<open>NaN\<close>.
\<close>

theorem retrieve_bounds:
  assumes "retrieve rt t opts = Inr res" and "ro_useRag opts \<noteq> Some False"
    and "0 \<le> effectiveTopK rt opts"
  shows "int (length (rr_chunks res)) \<le> effectiveTopK rt opts \<and>
    (\<forall>c \<in> set (rr_chunks res). jsGe (chunkScore c) (Fin (effectiveThreshold rt opts))) \<and>
    (\<exists>q results.
        embeddingProvider_embedSingle rt (ro_query opts) = Inr q \<and>
        vectorStore_search rt (er_embedding q) (effectiveTopK rt opts * 2) (buildFilter opts)
          = Inr results \<and>
        subseq (rr_chunks res) (map toDocumentChunk results) \<and>
        (descending (map res_score results) \<longrightarrow> descending (map chunkScore (rr_chunks res))) \<and>
        (\<forall>r1 r2 r3. results = [r1, r2, r3] \<and> res_score r1 = Fin 0.9 \<and> res_score r2 = Fin 0.75 \<and>
            res_score r3 = Fin 0.5 \<and> effectiveThreshold rt opts = 0.7 \<and> 2 \<le> effectiveTopK rt opts
            \<longrightarrow> rr_chunks res = [toDocumentChunk r1, toDocumentChunk r2])) \<and>
    (\<forall>results. scored db q' k flt = Inr results \<and> NaN \<notin> res_score ` set results \<longrightarrow>
        (\<exists>rs. search db q' k flt = Inr rs \<and> descending (map res_score rs)))"
proof -
  let ?k = "effectiveTopK rt opts" and ?th = "effectiveThreshold rt opts"
  let ?P = "\<lambda>r. jsGe (res_score r) (Fin ?th)"
  from retrieve_chunks [OF assms(1,2)] obtain q results where
    q: "embeddingProvider_embedSingle rt (ro_query opts) = Inr q"
    and s: "vectorStore_search rt (er_embedding q) (?k * 2) (buildFilter opts) = Inr results"
    and c: "rr_chunks res = map toDocumentChunk (slice (filter ?P results) 0 ?k)"
    by blast
  let ?filtered = "filter ?P results"
  have sl: "slice ?filtered 0 ?k = take (nat ?k) ?filtered"
    using assms(3) by (rule slice0_nonneg)
  have len: "int (length (rr_chunks res)) \<le> ?k"
    using assms(3) by (simp add: c sl)
  have inf: "set (take (nat ?k) ?filtered) \<subseteq> set ?filtered" by (rule set_take_subset)
  have sc: "chunkScore (toDocumentChunk r) = res_score r" if "r \<in> set (take (nat ?k) ?filtered)" for r
  proof -
    from that inf have "jsGe (res_score r) (Fin ?th)" by auto
    then have "res_score r \<noteq> NaN" using jsGe_not_NaN by blast
    then show ?thesis by (rule chunkScore_toDocumentChunk)
  qed
  have thr: "\<forall>c \<in> set (rr_chunks res). jsGe (chunkScore c) (Fin ?th)"
    using inf sc by (auto simp: c sl)
  have "subseq (slice ?filtered 0 ?k) results"
    using subseq_slice [of ?filtered 0 ?k] subseq_filter_left [of ?P results]
    by (rule subseq_order.trans)
  then have sub: "subseq (rr_chunks res) (map toDocumentChunk results)"
    unfolding c by (rule subseq_map)
  have mc: "map chunkScore (rr_chunks res) = map res_score (slice ?filtered 0 ?k)"
    using sc by (simp add: c sl)
  have desc: "descending (map res_score results) \<longrightarrow> descending (map chunkScore (rr_chunks res))"
    unfolding mc by (simp add: descending_slice descending_filter)
  have scen: "\<forall>r1 r2 r3. results = [r1, r2, r3] \<and> res_score r1 = Fin 0.9 \<and> res_score r2 = Fin 0.75 \<and>
            res_score r3 = Fin 0.5 \<and> ?th = 0.7 \<and> 2 \<le> ?k
            \<longrightarrow> rr_chunks res = [toDocumentChunk r1, toDocumentChunk r2]"
  proof (intro allI impI)
    fix r1 r2 r3
    assume a: "results = [r1, r2, r3] \<and> res_score r1 = Fin 0.9 \<and> res_score r2 = Fin 0.75 \<and>
            res_score r3 = Fin 0.5 \<and> ?th = 0.7 \<and> 2 \<le> ?k"
    then have f: "?filtered = [r1, r2]" by simp
    from a have "nat ?k \<ge> 2" by linarith
    then have "take (nat ?k) [r1, r2] = [r1, r2]" by simp
    moreover from sl have "slice ?filtered 0 ?k = take (nat ?k) [r1, r2]" by (simp only: f)
    ultimately have "slice ?filtered 0 ?k = [r1, r2]" by simp
    then show "rr_chunks res = [toDocumentChunk r1, toDocumentChunk r2]"
      by (simp only: c list.map)
  qed
  have store: "\<forall>results. scored db q' k flt = Inr results \<and> NaN \<notin> res_score ` set results \<longrightarrow>
        (\<exists>rs. search db q' k flt = Inr rs \<and> descending (map res_score rs))"
    using search_descending by blast
  show ?thesis
    using len thr q s sub desc scen store by blast
qed

lemmas eval_retrieve = retrieve_def effectiveTopK_def effectiveThreshold_def buildFilter_def
  rerankResults_def orString_def scenarioRetriever_def scenarioOptions_def threeCandidates_def
  candidate_def defaultRagConfig_def slice_def relIndex_def

text \<open>
  A store in which the record without a stored vector comes first: the scores are computed
  in the order of the rows, and the sort puts the record with the score 1 in front.
\<close>

lemma reversedStore_scored:
  "scored (upsert (upsert \<lparr>db_chunks = [], db_documents = [exampleDocument]\<rparr> [recordA]) [recordB])
      [Fin 1, Fin 0] 2 userFilter
     = Inr [resultOf recordA (Fin 0), resultOf recordB (Fin 1)]"
  by (simp add: eval_store)

text \<open>
  An instance of the theorem for claim C2: the scenario with the default configuration,
  and the internal store on the two records.
\<close>

theorem retrieve_bounds_witness:
  "retrieve scenarioRetriever 3 scenarioOptions
     = Inr \<lparr>rr_chunks = [toDocumentChunk (candidate ''c0'' 0 (Fin 0.9)),
                          toDocumentChunk (candidate ''c1'' 1 (Fin 0.75))],
            rr_totalChunks = 3, rr_query = ''question'', rr_executionTime = 3\<rparr> \<and>
   ro_useRag scenarioOptions \<noteq> Some False \<and>
   0 \<le> effectiveTopK scenarioRetriever scenarioOptions \<and>
   effectiveTopK scenarioRetriever scenarioOptions = 5 \<and>
   effectiveThreshold scenarioRetriever scenarioOptions = 0.7 \<and>
   descending (map res_score threeCandidates) \<and>
   descending (map chunkScore [toDocumentChunk (candidate ''c0'' 0 (Fin 0.9)),
                               toDocumentChunk (candidate ''c1'' 1 (Fin 0.75))]) \<and>
   jsGe (chunkScore (toDocumentChunk (candidate ''c0'' 0 (Fin 0.9)))) (Fin 0.7) \<and>
   jsGe (chunkScore (toDocumentChunk (candidate ''c1'' 1 (Fin 0.75)))) (Fin 0.7) \<and>
   search (upsert (upsert \<lparr>db_chunks = [], db_documents = [exampleDocument]\<rparr> [recordA]) [recordB])
      [Fin 1, Fin 0] 2 userFilter
     = Inr [resultOf recordB (Fin 1), resultOf recordA (Fin 0)] \<and>
   descending (map res_score [resultOf recordB (Fin 1), resultOf recordA (Fin 0)])"
proof -
  let ?R = "\<lparr>rr_chunks = [toDocumentChunk (candidate ''c0'' 0 (Fin 0.9)),
                          toDocumentChunk (candidate ''c1'' 1 (Fin 0.75))],
            rr_totalChunks = 3, rr_query = ''question'', rr_executionTime = 3\<rparr>"
  let ?db = "upsert (upsert \<lparr>db_chunks = [], db_documents = [exampleDocument]\<rparr> [recordA]) [recordB]"
  have e: "retrieve scenarioRetriever 3 scenarioOptions = Inr ?R"
    by (simp add: eval_retrieve)
  have u: "ro_useRag scenarioOptions \<noteq> Some False"
    by (simp add: scenarioOptions_def)
  have k: "effectiveTopK scenarioRetriever scenarioOptions = 5"
    by (simp add: eval_retrieve)
  have k0: "0 \<le> effectiveTopK scenarioRetriever scenarioOptions"
    by (simp add: k)
  have t: "effectiveThreshold scenarioRetriever scenarioOptions = 0.7"
    by (simp add: eval_retrieve)
  have d: "descending (map res_score threeCandidates)"
    by (simp add: descending_def threeCandidates_def candidate_def)
  have s: "vectorStore_search scenarioRetriever q k f = Inr threeCandidates" for q k f
    by (simp add: scenarioRetriever_def)
  note th = retrieve_bounds [OF e u k0, of ?db "[Fin 1, Fin 0]" 2 userFilter]
  have n: "NaN \<notin> res_score ` set [resultOf recordA (Fin 0), resultOf recordB (Fin 1)]"
    by (simp add: resultOf_def)
  from th reversedStore_scored n obtain rs where
    rs: "search ?db [Fin 1, Fin 0] 2 userFilter = Inr rs" and drs: "descending (map res_score rs)"
    by blast
  have se: "search ?db [Fin 1, Fin 0] 2 userFilter
              = Inr [resultOf recordB (Fin 1), resultOf recordA (Fin 0)]"
    by (simp add: eval_store)
  with rs have "rs = [resultOf recordB (Fin 1), resultOf recordA (Fin 0)]" by simp
  with drs have dd: "descending (map res_score [resultOf recordB (Fin 1), resultOf recordA (Fin 0)])"
    by simp
  have main: "descending (map chunkScore (rr_chunks ?R)) \<and>
      (\<forall>c \<in> set (rr_chunks ?R). jsGe (chunkScore c) (Fin 0.7))"
    using th e u k k0 t d s by auto
  show ?thesis
    using main e u k k0 t d se dd by simp
qed

text \<open>
  Claim C2 as stated ranges over every call.  With \<open>topK = -1\<close>, a value that the search
  route can pass on from the request, \<open>slice(0, -1)\<close> drops the last of the two results
  above the threshold and keeps the other: one chunk is returned, more than \<open>topK\<close>.
\<close>

theorem retrieve_negative_topK:
  "retrieve scenarioRetriever 3 (scenarioOptions\<lparr>ro_topK := Some (- 1)\<rparr>)
     = Inr \<lparr>rr_chunks = [toDocumentChunk (candidate ''c0'' 0 (Fin 0.9))],
            rr_totalChunks = 3, rr_query = ''question'', rr_executionTime = 3\<rparr> \<and>
   effectiveTopK scenarioRetriever (scenarioOptions\<lparr>ro_topK := Some (- 1)\<rparr>) = - 1 \<and>
   \<not> int (length [toDocumentChunk (candidate ''c0'' 0 (Fin 0.9))])
        \<le> effectiveTopK scenarioRetriever (scenarioOptions\<lparr>ro_topK := Some (- 1)\<rparr>)"
  by (simp add: eval_retrieve)

section \<open>Embedding providers: a failing sub-batch\<close>


lemma embedLoop_first_failure:
  assumes "0 < api_maxBatchSize pv"
    and "j * api_maxBatchSize pv < length texts"
    and "api_request pv (subBatch pv texts j) = Inl err"
    and "\<forall>l. i0 \<le> l \<and> l < j \<longrightarrow> (\<exists>response. api_request pv (subBatch pv texts l) = Inr response)"
    and "i0 \<le> j"
  shows "embedLoop pv texts (i0 * api_maxBatchSize pv) calls results
           = Some (calls @ map (subBatch pv texts) [i0..<Suc j], Inl err)"
  using assms(4,5)
proof (induction "j - i0" arbitrary: i0 calls results)
  case 0
  then have eq: "i0 = j" by simp
  show ?case
    using assms(2,3) unfolding eq
    by (subst embedLoop.simps) (simp add: subBatch_def)
next
  case (Suc n)
  then have lt: "i0 < j" by simp
  then obtain response where r: "api_request pv (subBatch pv texts i0) = Inr response"
    using Suc.prems by blast
  have "i0 * api_maxBatchSize pv \<le> j * api_maxBatchSize pv"
    using lt by simp
  then have inb: "i0 * api_maxBatchSize pv < length texts"
    using assms(2) by linarith
  have step: "i0 * api_maxBatchSize pv + api_maxBatchSize pv = Suc i0 * api_maxBatchSize pv"
    by simp
  have IH: "embedLoop pv texts (Suc i0 * api_maxBatchSize pv) (calls @ [subBatch pv texts i0])
              (results @ map (toEmbeddingResult pv response) (resp_embeddings response))
           = Some ((calls @ [subBatch pv texts i0]) @ map (subBatch pv texts) [Suc i0..<Suc j], Inl err)"
    using Suc.hyps(1) [of "Suc i0"] Suc.hyps(2) Suc.prems lt by auto
  have up: "[i0..<Suc j] = i0 # [Suc i0..<Suc j]"
    using lt by (simp add: upt_conv_Cons)
  show ?case
    apply (subst embedLoop.simps)
    using inb r IH unfolding step up
    by (simp add: subBatch_def [symmetric] Let_def del: upt_Suc) 
qed

section \<open>Document ingestion: the reported status\<close>

lemma docIds_alt: "docIds db = set (map doc_id (db_documents db))"
  by (simp add: docIds_def)

lemma map_update_ids:
  assumes "\<And>d. doc_id (f d) = doc_id d"
  shows "map doc_id (map (\<lambda>d. if doc_id d = documentId then f d else d) xs) = map doc_id xs"
  by (induction xs) (simp_all add: assms)

lemma updateDocument_ok:
  assumes "documentId \<in> docIds db" and "\<And>d. doc_id (f d) = doc_id d"
  shows "\<exists>db1. updateDocument documentId f db = Inr db1 \<and> docIds db1 = docIds db
            \<and> db_chunks db1 = db_chunks db"
proof -
  let ?db1 = "db\<lparr>db_documents := map (\<lambda>d. if doc_id d = documentId then f d else d) (db_documents db)\<rparr>"
  have "db_documents ?db1 = map (\<lambda>d. if doc_id d = documentId then f d else d) (db_documents db)"
    by simp
  then have "map doc_id (db_documents ?db1) = map doc_id (db_documents db)"
    by (simp only: map_update_ids [OF assms(2)])
  then have ids: "docIds ?db1 = docIds db"
    by (simp only: docIds_alt)
  have ch: "db_chunks ?db1 = db_chunks db" by simp
  have "updateDocument documentId f db = Inr ?db1"
    using assms(1) unfolding updateDocument_def docIds_def by (simp only: if_True)
  then show ?thesis using ids ch by blast
qed

lemma updateDocumentStatus_ok:
  assumes "documentId \<in> docIds db"
  shows "\<exists>db1. updateDocumentStatus documentId st n db = Inr db1 \<and> docIds db1 = docIds db"
proof -
  have "\<exists>db1. updateDocument documentId f db = Inr db1 \<and> docIds db1 = docIds db"
    if "\<And>d. doc_id (f d) = doc_id d" for f
    using updateDocument_ok [OF assms that] by blast
  then show ?thesis
    unfolding updateDocumentStatus_def by simp
qed

lemma batchCount_less: "(j * batchSize < length chunks) = (j < batchCount chunks)"
proof -
  have "(j < (length chunks + 99) div 100) = (Suc j \<le> (length chunks + 99) div 100)"
    by (rule less_eq_Suc_le)
  also have "\<dots> = (Suc j * 100 \<le> length chunks + 99)"
    by (rule less_eq_div_iff_mult_less_eq) simp
  also have "\<dots> = (j * 100 < length chunks)" by auto
  finally have "(j < (length chunks + 99) div 100) = (j * 100 < length chunks)" .
  moreover have "length chunks + 100 - 1 = length chunks + 99" by simp
  ultimately show ?thesis
    unfolding batchCount_def batchSize_def by (simp only:)
qed

lemma batchLoop_closed:
  assumes "documentId \<in> docIds db"
  shows "\<exists>db1. batchLoop e documentId chunks (j0 * batchSize) allE errs db
           = Inr (allE @ embeddedFrom e chunks j0, errs @ batchErrorsFrom e chunks j0, db1)
         \<and> docIds db1 = docIds db \<and> db_chunks db1 = db_chunks db"
  using assms
proof (induction "batchCount chunks - j0" arbitrary: j0 allE errs db)
  case 0
  then have ge: "batchCount chunks \<le> j0" by simp
  then have nlt: "\<not> j0 * batchSize < length chunks"
    by (simp add: batchCount_less)
  have em: "embeddedFrom e chunks j0 = []"
    unfolding embeddedFrom_def using ge by simp
  have er: "batchErrorsFrom e chunks j0 = []"
    unfolding batchErrorsFrom_def using ge by simp
  show ?case
    by (subst batchLoop.simps) (simp add: em er nlt)
next
  case (Suc n)
  then have lt: "j0 < batchCount chunks" by simp
  then have inb: "j0 * batchSize < length chunks" by (simp add: batchCount_less)
  let ?f = "\<lambda>d. d\<lparr>doc_chunksCount := min (j0 * batchSize + batchSize) (length chunks)\<rparr>"
  have "doc_id (?f d) = doc_id d" for d :: DocumentRow by simp
  from updateDocument_ok [OF Suc.prems this] obtain db1 where
    u: "updateDocument documentId ?f db = Inr db1" and ids: "docIds db1 = docIds db"
    and ch: "db_chunks db1 = db_chunks db"
    by blast
  have d1: "documentId \<in> docIds db1" using ids Suc.prems by simp
  have n: "n = batchCount chunks - Suc j0" using Suc.hyps(2) by simp
  have step: "j0 * batchSize + batchSize = Suc j0 * batchSize" by simp
  have up: "[j0..<batchCount chunks] = j0 # [Suc j0..<batchCount chunks]"
    using lt by (simp add: upt_conv_Cons)
  show ?case
  proof (cases "e (map content (batchAt chunks j0))")
    case (Inl msg)
    from Suc.hyps(1) [OF n d1, of allE "errs @ [batchMessage (j0 * batchSize) msg]"]
    obtain db2 where
      IH: "batchLoop e documentId chunks (Suc j0 * batchSize) allE
             (errs @ [batchMessage (j0 * batchSize) msg]) db1
           = Inr (allE @ embeddedFrom e chunks (Suc j0),
                  (errs @ [batchMessage (j0 * batchSize) msg]) @ batchErrorsFrom e chunks (Suc j0), db2)"
      and ids2: "docIds db2 = docIds db1" and ch2: "db_chunks db2 = db_chunks db1"
      by blast
    have "batchLoop e documentId chunks (j0 * batchSize) allE errs db
           = Inr (allE @ embeddedFrom e chunks j0, errs @ batchErrorsFrom e chunks j0, db2)"
      apply (subst batchLoop.simps)
      using inb Inl u IH unfolding step
      by (simp add: Let_def batchAt_def [symmetric] embeddedFrom_def batchErrorsFrom_def up del: upt_Suc)
    then show ?thesis using ids ids2 ch ch2 by simp
  next
    case (Inr results)
    from Suc.hyps(1) [OF n d1, of "allE @ pairUp (batchAt chunks j0) results" errs]
    obtain db2 where
      IH: "batchLoop e documentId chunks (Suc j0 * batchSize)
             (allE @ pairUp (batchAt chunks j0) results) errs db1
           = Inr ((allE @ pairUp (batchAt chunks j0) results) @ embeddedFrom e chunks (Suc j0),
                  errs @ batchErrorsFrom e chunks (Suc j0), db2)"
      and ids2: "docIds db2 = docIds db1" and ch2: "db_chunks db2 = db_chunks db1"
      by blast
    have "batchLoop e documentId chunks (j0 * batchSize) allE errs db
           = Inr (allE @ embeddedFrom e chunks j0, errs @ batchErrorsFrom e chunks j0, db2)"
      apply (subst batchLoop.simps)
      using inb Inr u IH unfolding step
      by (simp add: Let_def batchAt_def [symmetric] embeddedFrom_def batchErrorsFrom_def up del: upt_Suc)
    then show ?thesis using ids ids2 ch ch2 by simp
  qed
qed


lemma upsert_documents: "db_documents (upsert db records) = db_documents db"
  by (induction records arbitrary: db) simp_all

lemma upsert_docIds: "docIds (upsert db records) = docIds db"
  by (simp add: docIds_def upsert_documents)

lemma createDocument_ok:
  assumes "newId \<notin> docIds db"
  shows "\<exists>db1. createDocument newId name userId t db = Inr db1 \<and> newId \<in> docIds db1"
  using assms by (simp add: createDocument_def docIds_def)

lemma processBody_completed:
  assumes "documentId \<in> docIds db" and "chunks \<noteq> []"
    and "toVectorRecords documentId parsed (embeddedFrom (svc_embed svc) chunks 0) = Inr records"
    and "svc_storeUpsert svc records = None"
  shows "\<exists>db3. processBody svc documentId parsed chunks db =
           Inr (\<lparr>ir_documentId = documentId,
                 ir_chunksCount = length (embeddedFrom (svc_embed svc) chunks 0),
                 ir_status = (if batchErrorsFrom (svc_embed svc) chunks 0 = [] then Success else Partial),
                 ir_errors = (if batchErrorsFrom (svc_embed svc) chunks 0 = [] then None
                              else Some (batchErrorsFrom (svc_embed svc) chunks 0))\<rparr>, db3)"
proof -
  from batchLoop_closed [OF assms(1), of "svc_embed svc" chunks 0 "[]" "[]"]
  obtain db1 where
    b: "batchLoop (svc_embed svc) documentId chunks 0 [] [] db
          = Inr (embeddedFrom (svc_embed svc) chunks 0, batchErrorsFrom (svc_embed svc) chunks 0, db1)"
    and ids: "docIds db1 = docIds db"
    by auto
  have "documentId \<in> docIds (upsert db1 records)"
    using assms(1) ids by (simp add: upsert_docIds)
  from updateDocumentStatus_ok [OF this]
  obtain db3 where
    u: "updateDocumentStatus documentId COMPLETED
          (Some (length (embeddedFrom (svc_embed svc) chunks 0))) (upsert db1 records) = Inr db3"
    by blast
  show ?thesis
    using assms(2,3,4) b u by (simp add: processBody_def Let_def)
qed

lemma processBody_empty:
  "processBody svc documentId parsed [] db = Inr (r, db1) \<Longrightarrow> ir_status r = Failed"
  by (auto simp: processBody_def split: sum.splits)

lemma toVectorRecords_Inr:
  "(\<forall>x \<in> set xs. fst x \<noteq> None) \<Longrightarrow> \<exists>records. toVectorRecords i p xs = Inr records"
proof (induction xs)
  case Nil then show ?case by simp
next
  case (Cons x xs)
  then obtain c v where x: "x = (Some c, v)" by (cases x) auto
  from Cons obtain records where "toVectorRecords i p xs = Inr records" by auto
  then show ?case by (simp add: x)
qed

lemma toVectorRecords_Inl:
  "(\<exists>x \<in> set xs. fst x = None) \<Longrightarrow> \<exists>e. toVectorRecords i p xs = Inl e"
proof (induction xs)
  case Nil then show ?case by simp
next
  case (Cons x xs)
  obtain c v where x: "x = (c, v)" by (cases x)
  show ?case
  proof (cases c)
    case None then show ?thesis by (simp add: x)
  next
    case (Some ch)
    with Cons.prems x have "\<exists>y \<in> set xs. fst y = None" by auto
    from Cons.IH [OF this] obtain e where "toVectorRecords i p xs = Inl e" ..
    then show ?thesis by (simp add: x Some)
  qed
qed

lemma pairUp_None: "(\<exists>x \<in> set (pairUp batch results). fst x = None) \<longleftrightarrow> length batch < length results"
proof
  assume "\<exists>x \<in> set (pairUp batch results). fst x = None"
  then show "length batch < length results"
    by (auto simp: pairUp_def split: if_splits)
next
  assume l: "length batch < length results"
  then have "length batch \<in> set [0..<length results]" by simp
  then have "(None, er_embedding (results ! length batch)) \<in> set (pairUp batch results)"
    unfolding pairUp_def by (simp add: image_iff) (use l in force)
  then show "\<exists>x \<in> set (pairUp batch results). fst x = None" by force
qed

lemma embeddedFrom_None:
  "(\<exists>x \<in> set (embeddedFrom e chunks 0). fst x = None) \<longleftrightarrow> overfullBatch e chunks"
proof -
  let ?f = "\<lambda>j. case e (map content (batchAt chunks j)) of
             Inl msg \<Rightarrow> [] | Inr results \<Rightarrow> pairUp (batchAt chunks j) results"
  let ?g = "\<lambda>j. case e (map content (batchAt chunks j)) of
             Inl msg \<Rightarrow> False | Inr results \<Rightarrow> length (batchAt chunks j) < length results"
  have step: "(\<exists>x \<in> set (?f j). fst x = None) \<longleftrightarrow> ?g j" for j
  proof (cases "e (map content (batchAt chunks j))")
    case (Inl msg) then show ?thesis by simp
  next
    case (Inr results) then show ?thesis using pairUp_None [of "batchAt chunks j" results] by simp
  qed
  have "(\<exists>x \<in> set (embeddedFrom e chunks 0). fst x = None) \<longleftrightarrow>
        (\<exists>j \<in> set [0..<batchCount chunks]. \<exists>x \<in> set (?f j). fst x = None)"
    unfolding embeddedFrom_def by simp
  also have "\<dots> \<longleftrightarrow> (\<exists>j \<in> set [0..<batchCount chunks]. ?g j)"
    by (simp only: step)
  finally show ?thesis by (simp only: overfullBatch_def list_ex_iff)
qed

lemma records_or_overfull:
  "(\<not> overfullBatch e chunks \<longrightarrow> (\<exists>records. toVectorRecords i p (embeddedFrom e chunks 0) = Inr records)) \<and>
   (overfullBatch e chunks \<longrightarrow> (\<exists>msg. toVectorRecords i p (embeddedFrom e chunks 0) = Inl msg))"
proof (intro conjI impI)
  assume "\<not> overfullBatch e chunks"
  then have "\<forall>x \<in> set (embeddedFrom e chunks 0). fst x \<noteq> None"
    using embeddedFrom_None [of e chunks] by simp
  then show "\<exists>records. toVectorRecords i p (embeddedFrom e chunks 0) = Inr records"
    by (rule toVectorRecords_Inr)
next
  assume "overfullBatch e chunks"
  then have "\<exists>x \<in> set (embeddedFrom e chunks 0). fst x = None"
    using embeddedFrom_None [of e chunks] by simp
  then show "\<exists>msg. toVectorRecords i p (embeddedFrom e chunks 0) = Inl msg"
    by (rule toVectorRecords_Inl)
qed

lemma processBody_throws:
  assumes "documentId \<in> docIds db" and "chunks \<noteq> []"
    and "(\<exists>msg. toVectorRecords documentId parsed (embeddedFrom (svc_embed svc) chunks 0) = Inl msg) \<or>
         (\<exists>records msg. toVectorRecords documentId parsed (embeddedFrom (svc_embed svc) chunks 0) = Inr records
             \<and> svc_storeUpsert svc records = Some msg)"
  shows "\<exists>x. processBody svc documentId parsed chunks db = Inl x"
proof -
  from batchLoop_closed [OF assms(1), of "svc_embed svc" chunks 0 "[]" "[]"]
  obtain db1 where
    b: "batchLoop (svc_embed svc) documentId chunks 0 [] [] db
          = Inr (embeddedFrom (svc_embed svc) chunks 0, batchErrorsFrom (svc_embed svc) chunks 0, db1)"
    by auto
  show ?thesis
    using assms(2,3) b by (auto simp: processBody_def)
qed

lemma ingestDocument_thrown:
  assumes "ingestDocument svc newId source userId copts db = Some (r, db')"
    and "src_parsed source = Inr parsed"
    and "createDocument newId (orString (pd_title parsed) (src_fileName source)) userId
          (pd_content parsed) db = Inr db1"
    and "chunkText (pd_content parsed) (chunkingConfig svc copts) = Some chunks"
    and "processBody svc newId parsed chunks db1 = Inl x"
  shows "ir_status r = Failed"
  using assms
  by (auto simp: ingestDocument_def processDocument_def failedIngestion_def
      split: sum.splits prod.splits)

text \<open>
  Claim C3 as amended, for every ingestion call that returns a result.  The status is
  \<open>failed\<close> when parsing failed, when the document cannot be created because its id
  exists, and when the chunker produced no chunk.  When parsing succeeded, the document
  was created and at least one chunk was produced, the status is \<open>failed\<close> when the
  provider returned more results than texts for some batch (the building of the vector
  records throws) and when the \<open>upsert\<close> of the vector store throws; in every other case
  it is the success status exactly when no embedding batch failed, it is \<open>partial\<close> when
  some batch failed, whether or not a chunk was embedded, and the reported count is the
  number of embedded chunks.  The tables are those of the model: a call of the Prisma
  client throws only for an id that is missing or exists already.
\<close>

theorem ingestion_status:
  assumes "ingestDocument svc newId source userId copts db = Some (r, db')"
  shows "(\<forall>e. src_parsed source = Inl e \<longrightarrow> ir_status r = Failed) \<and>
    (\<forall>parsed. src_parsed source = Inr parsed \<and> newId \<in> docIds db \<longrightarrow> ir_status r = Failed) \<and>
    (\<forall>parsed. src_parsed source = Inr parsed \<and>
        chunkText (pd_content parsed) (chunkingConfig svc copts) = Some [] \<longrightarrow> ir_status r = Failed) \<and>
    (\<forall>parsed chunks.
        src_parsed source = Inr parsed \<and> newId \<notin> docIds db \<and>
        chunkText (pd_content parsed) (chunkingConfig svc copts) = Some chunks \<and> chunks \<noteq> [] \<longrightarrow>
          (overfullBatch (svc_embed svc) chunks \<longrightarrow> ir_status r = Failed) \<and>
          (\<not> overfullBatch (svc_embed svc) chunks \<longrightarrow>
             (\<exists>records.
                toVectorRecords newId parsed (embeddedFrom (svc_embed svc) chunks 0) = Inr records \<and>
                (svc_storeUpsert svc records \<noteq> None \<longrightarrow> ir_status r = Failed) \<and>
                (svc_storeUpsert svc records = None \<longrightarrow>
                   (ir_status r = Success \<longleftrightarrow> batchErrorsFrom (svc_embed svc) chunks 0 = []) \<and>
                   (batchErrorsFrom (svc_embed svc) chunks 0 \<noteq> [] \<longrightarrow> ir_status r = Partial) \<and>
                   ir_chunksCount r = length (embeddedFrom (svc_embed svc) chunks 0)))))"
proof (intro conjI allI impI)
  fix e assume "src_parsed source = Inl e"
  then show "ir_status r = Failed"
    using assms by (auto simp: ingestDocument_def failedIngestion_def)
next
  fix parsed assume "src_parsed source = Inr parsed \<and> newId \<in> docIds db"
  then show "ir_status r = Failed"
    using assms by (auto simp: ingestDocument_def createDocument_def docIds_def failedIngestion_def)
next
  fix parsed
  assume a: "src_parsed source = Inr parsed \<and>
        chunkText (pd_content parsed) (chunkingConfig svc copts) = Some []"
  show "ir_status r = Failed"
    using assms a processBody_empty [of svc newId parsed]
    by (auto simp: ingestDocument_def processDocument_def failedIngestion_def
        split: sum.splits option.splits prod.splits)
next
  fix parsed chunks
  assume a: "src_parsed source = Inr parsed \<and> newId \<notin> docIds db \<and>
        chunkText (pd_content parsed) (chunkingConfig svc copts) = Some chunks \<and> chunks \<noteq> []"
    and o: "overfullBatch (svc_embed svc) chunks"
  from a createDocument_ok obtain db1 where
    c: "createDocument newId (orString (pd_title parsed) (src_fileName source)) userId
          (pd_content parsed) db = Inr db1"
    and i: "newId \<in> docIds db1"
    by blast
  from a have c1: "chunks \<noteq> []" by simp
  from o records_or_overfull [of "svc_embed svc" chunks newId parsed]
  have "\<exists>msg. toVectorRecords newId parsed (embeddedFrom (svc_embed svc) chunks 0) = Inl msg"
    by blast
  then obtain x where "processBody svc newId parsed chunks db1 = Inl x"
    using processBody_throws [OF i c1, of parsed svc] by blast
  then show "ir_status r = Failed"
    using ingestDocument_thrown [OF assms _ c] a by blast
next
  fix parsed chunks
  assume a: "src_parsed source = Inr parsed \<and> newId \<notin> docIds db \<and>
        chunkText (pd_content parsed) (chunkingConfig svc copts) = Some chunks \<and> chunks \<noteq> []"
    and o: "\<not> overfullBatch (svc_embed svc) chunks"
  from a createDocument_ok obtain db1 where
    c: "createDocument newId (orString (pd_title parsed) (src_fileName source)) userId
          (pd_content parsed) db = Inr db1"
    and i: "newId \<in> docIds db1"
    by blast
  from a have c1: "chunks \<noteq> []" by simp
  from o records_or_overfull [of "svc_embed svc" chunks newId parsed] obtain records where
    t1: "toVectorRecords newId parsed (embeddedFrom (svc_embed svc) chunks 0) = Inr records"
    by blast
  have thrown: "ir_status r = Failed" if "svc_storeUpsert svc records \<noteq> None"
  proof -
    from that obtain msg where "svc_storeUpsert svc records = Some msg" by auto
    then obtain x where "processBody svc newId parsed chunks db1 = Inl x"
      using processBody_throws [OF i c1, of parsed svc] t1 by blast
    then show ?thesis using ingestDocument_thrown [OF assms _ c] a by blast
  qed
  have completed: "(ir_status r = Success \<longleftrightarrow> batchErrorsFrom (svc_embed svc) chunks 0 = []) \<and>
        (batchErrorsFrom (svc_embed svc) chunks 0 \<noteq> [] \<longrightarrow> ir_status r = Partial) \<and>
        ir_chunksCount r = length (embeddedFrom (svc_embed svc) chunks 0)"
    if s1: "svc_storeUpsert svc records = None"
  proof -
    from processBody_completed [OF i c1 t1 s1] obtain db3 where
      p: "processBody svc newId parsed chunks db1 =
           Inr (\<lparr>ir_documentId = newId,
                 ir_chunksCount = length (embeddedFrom (svc_embed svc) chunks 0),
                 ir_status = (if batchErrorsFrom (svc_embed svc) chunks 0 = [] then Success else Partial),
                 ir_errors = (if batchErrorsFrom (svc_embed svc) chunks 0 = [] then None
                              else Some (batchErrorsFrom (svc_embed svc) chunks 0))\<rparr>, db3)"
      by blast
    have r: "r = \<lparr>ir_documentId = newId,
                 ir_chunksCount = length (embeddedFrom (svc_embed svc) chunks 0),
                 ir_status = (if batchErrorsFrom (svc_embed svc) chunks 0 = [] then Success else Partial),
                 ir_errors = (if batchErrorsFrom (svc_embed svc) chunks 0 = [] then None
                              else Some (batchErrorsFrom (svc_embed svc) chunks 0))\<rparr>"
      using assms a c p by (auto simp: ingestDocument_def processDocument_def)
    show ?thesis by (simp add: r)
  qed
  show "\<exists>records.
          toVectorRecords newId parsed (embeddedFrom (svc_embed svc) chunks 0) = Inr records \<and>
          (svc_storeUpsert svc records \<noteq> None \<longrightarrow> ir_status r = Failed) \<and>
          (svc_storeUpsert svc records = None \<longrightarrow>
             (ir_status r = Success \<longleftrightarrow> batchErrorsFrom (svc_embed svc) chunks 0 = []) \<and>
             (batchErrorsFrom (svc_embed svc) chunks 0 \<noteq> [] \<longrightarrow> ir_status r = Partial) \<and>
             ir_chunksCount r = length (embeddedFrom (svc_embed svc) chunks 0))"
  proof (intro exI [of _ records] conjI impI)
    show "toVectorRecords newId parsed (embeddedFrom (svc_embed svc) chunks 0) = Inr records"
      by (rule t1)
  next
    assume "svc_storeUpsert svc records \<noteq> None"
    then show "ir_status r = Failed" by (rule thrown)
  next
    assume n: "svc_storeUpsert svc records = None"
    show "(ir_status r = Success) = (batchErrorsFrom (svc_embed svc) chunks 0 = [])"
      using completed [OF n] by simp
  next
    assume n: "svc_storeUpsert svc records = None"
      and e: "batchErrorsFrom (svc_embed svc) chunks 0 \<noteq> []"
    show "ir_status r = Partial" using completed [OF n] e by simp
  next
    assume n: "svc_storeUpsert svc records = None"
    show "ir_chunksCount r = length (embeddedFrom (svc_embed svc) chunks 0)"
      using completed [OF n] by simp
  qed
qed

lemma ingestDocument_completed:
  assumes "src_parsed source = Inr parsed" and "newId \<notin> docIds db"
    and "chunkText (pd_content parsed) (chunkingConfig svc copts) = Some chunks"
    and "chunks \<noteq> []"
    and "toVectorRecords newId parsed (embeddedFrom (svc_embed svc) chunks 0) = Inr records"
    and "svc_storeUpsert svc records = None"
  shows "\<exists>r db1. ingestDocument svc newId source userId copts db = Some (r, db1)"
proof -
  from createDocument_ok [OF assms(2)] obtain db1 where
    c: "createDocument newId (orString (pd_title parsed) (src_fileName source)) userId
          (pd_content parsed) db = Inr db1"
    and i: "newId \<in> docIds db1"
    by blast
  from processBody_completed [OF i assms(4,5,6)] obtain r db3 where
    "processBody svc newId parsed chunks db1 = Inr (r, db3)"
    by blast
  then show ?thesis
    using assms(1,3) c by (simp add: ingestDocument_def processDocument_def)
qed

text \<open>
  Claim C3 as stated: the status is \<open>failed\<close> when zero chunks were embedded.  A text
  file with the content \<open>hello world\<close> gives one chunk and one batch; the provider throws
  on it, so no chunk is embedded.  The reported status is \<open>partial\<close>, and the document is
  marked \<open>COMPLETED\<close>.
\<close>

theorem ingestion_all_batches_fail:
  "ingestDocument failingService ''doc-1'' (textFile ''hello world'') ''u1'' None emptyDatabase
     = Some (\<lparr>ir_documentId = ''doc-1'', ir_chunksCount = 0, ir_status = Partial,
              ir_errors = Some [''Embedding batch 1 failed: rate limit'']\<rparr>,
             \<lparr>db_chunks = [], db_documents = [documentAfter ''hello world'' COMPLETED]\<rparr>)"
  by code_simp

text \<open>
  Instances of the theorem for claim C3.  With the status \<open>failed\<close>: a PDF file, an id
  that exists, an empty file, a provider that returns a result too many, and a vector
  store whose \<open>upsert\<close> throws.  The file \<open>hello world\<close> with a working provider
  (success, one chunk).  The text of 101 chunks with a provider that embeds the first
  batch of 100 and throws on the second batch (\<open>partial\<close>, 100 chunks).
\<close>

theorem ingestion_status_witness:
  "ingestDocument workingService ''doc-1'' pdfFile ''u1'' None emptyDatabase
     = Some (failedIngestion
               ''PDF parsing requires 'pdf-parse' package. Install it with: npm install pdf-parse'',
             emptyDatabase) \<and>
   ir_status (failedIngestion
      ''PDF parsing requires 'pdf-parse' package. Install it with: npm install pdf-parse'') = Failed \<and>
   ''d1'' \<in> docIds \<lparr>db_chunks = [], db_documents = [exampleDocument]\<rparr> \<and>
   (\<exists>r db1. ingestDocument workingService ''d1'' (textFile ''hello world'') ''u1'' None
                \<lparr>db_chunks = [], db_documents = [exampleDocument]\<rparr> = Some (r, db1) \<and>
       ir_status r = Failed) \<and>
   chunkText (pd_content (parsedText [])) (chunkingConfig workingService None) = Some [] \<and>
   (\<exists>r db1. ingestDocument workingService ''doc-1'' (textFile []) ''u1'' None emptyDatabase
        = Some (r, db1) \<and> ir_status r = Failed) \<and>
   chunkText (pd_content (parsedText ''hello world'')) (chunkingConfig workingService None)
     = Some [mkChunk ''hello world'' 0 0 11] \<and>
   overfullBatch (svc_embed overfullService) [mkChunk ''hello world'' 0 0 11] \<and>
   (\<exists>r db1. ingestDocument overfullService ''doc-1'' (textFile ''hello world'') ''u1'' None emptyDatabase
        = Some (r, db1) \<and> ir_status r = Failed) \<and>
   (\<exists>r db1. ingestDocument brokenStoreService ''doc-1'' (textFile ''hello world'') ''u1'' None
                emptyDatabase = Some (r, db1) \<and> ir_status r = Failed) \<and>
   batchErrorsFrom (svc_embed workingService) [mkChunk ''hello world'' 0 0 11] 0 = [] \<and>
   (\<exists>r db1. ingestDocument workingService ''doc-1'' (textFile ''hello world'') ''u1'' None emptyDatabase
        = Some (r, db1) \<and> ir_status r = Success \<and> ir_chunksCount r = 1) \<and>
   chunkText (pd_content (parsedText manyWords)) (chunkingConfig fullBatchService (Some smallWindows))
     = Some manyWordChunks \<and>
   batchErrorsFrom (svc_embed fullBatchService) manyWordChunks 0
     = [''Embedding batch 2 failed: rate limit''] \<and>
   (\<exists>r db1. ingestDocument fullBatchService ''doc-1'' (textFile manyWords) ''u1'' (Some smallWindows)
                 emptyDatabase = Some (r, db1) \<and>
       ir_status r = Partial \<and> ir_chunksCount r = 100)"
proof -
  let ?pdf = "''PDF parsing requires 'pdf-parse' package. Install it with: npm install pdf-parse''"
  let ?hello = "[mkChunk ''hello world'' 0 0 11]"
  have fresh: "''doc-1'' \<notin> docIds emptyDatabase"
    by (simp add: docIds_def emptyDatabase_def)
  \<comment> \<open>the parser throws\<close>
  have e1: "ingestDocument workingService ''doc-1'' pdfFile ''u1'' None emptyDatabase
     = Some (failedIngestion ?pdf, emptyDatabase)"
    by (simp add: ingestDocument_def pdfFile_def)
  have p1: "src_parsed pdfFile = Inl ?pdf"
    by (simp add: pdfFile_def)
  have s1: "ir_status (failedIngestion ?pdf) = Failed"
    using ingestion_status [OF e1] p1 by blast
  \<comment> \<open>a document with the id exists\<close>
  have p3: "src_parsed (textFile ''hello world'') = Inr (parsedText ''hello world'')"
    by (simp add: textFile_def)
  have i0: "''d1'' \<in> docIds \<lparr>db_chunks = [], db_documents = [exampleDocument]\<rparr>"
    by (simp add: docIds_def exampleDocument_def)
  have e0: "ingestDocument workingService ''d1'' (textFile ''hello world'') ''u1'' None
                \<lparr>db_chunks = [], db_documents = [exampleDocument]\<rparr>
     = Some (failedIngestion ''Unique constraint failed on the fields: (`id`)'',
             \<lparr>db_chunks = [], db_documents = [exampleDocument]\<rparr>)"
    by (simp add: ingestDocument_def createDocument_def textFile_def exampleDocument_def)
  have "ir_status (failedIngestion ''Unique constraint failed on the fields: (`id`)'') = Failed"
    using ingestion_status [OF e0] p3 i0 by blast
  then have s0: "\<exists>r db1. ingestDocument workingService ''d1'' (textFile ''hello world'') ''u1'' None
                \<lparr>db_chunks = [], db_documents = [exampleDocument]\<rparr> = Some (r, db1) \<and>
       ir_status r = Failed"
    using e0 by blast
  \<comment> \<open>the file is empty\<close>
  have c2: "chunkText (pd_content (parsedText [])) (chunkingConfig workingService None) = Some []"
    by code_simp
  have e2: "ingestDocument workingService ''doc-1'' (textFile []) ''u1'' None emptyDatabase
     = Some (\<lparr>ir_documentId = ''doc-1'', ir_chunksCount = 0, ir_status = Failed,
              ir_errors = Some [''No content to chunk'']\<rparr>,
             \<lparr>db_chunks = [], db_documents =
                [(documentAfter [] FAILED)\<lparr>doc_chunksCount := 0\<rparr>]\<rparr>)"
    by code_simp
  have p2: "src_parsed (textFile []) = Inr (parsedText [])"
    by (simp add: textFile_def)
  have "ir_status \<lparr>ir_documentId = ''doc-1'', ir_chunksCount = 0, ir_status = Failed,
              ir_errors = Some [''No content to chunk'']\<rparr> = Failed"
    using ingestion_status [OF e2] p2 c2 by blast
  then have s2: "\<exists>r db1. ingestDocument workingService ''doc-1'' (textFile []) ''u1'' None emptyDatabase
        = Some (r, db1) \<and> ir_status r = Failed"
    using e2 by blast
  \<comment> \<open>one chunk, and a result too many\<close>
  have c3: "chunkText (pd_content (parsedText ''hello world'')) (chunkingConfig workingService None)
     = Some ?hello"
    by code_simp
  have c5: "chunkText (pd_content (parsedText ''hello world'')) (chunkingConfig overfullService None)
     = Some ?hello"
    by code_simp
  have ne: "?hello \<noteq> []" by simp
  have o5: "overfullBatch (svc_embed overfullService) ?hello"
    by code_simp
  have e5: "ingestDocument overfullService ''doc-1'' (textFile ''hello world'') ''u1'' None emptyDatabase
     = Some (\<lparr>ir_documentId = ''doc-1'', ir_chunksCount = 0, ir_status = Failed,
              ir_errors = Some [''Cannot read properties of undefined (reading 'index')'']\<rparr>,
             \<lparr>db_chunks = [], db_documents = [documentAfter ''hello world'' FAILED]\<rparr>)"
    by code_simp
  have "ir_status \<lparr>ir_documentId = ''doc-1'', ir_chunksCount = 0, ir_status = Failed,
              ir_errors = Some [''Cannot read properties of undefined (reading 'index')'']\<rparr> = Failed"
    using ingestion_status [OF e5] p3 fresh c5 ne o5 by blast
  then have s5: "\<exists>r db1. ingestDocument overfullService ''doc-1'' (textFile ''hello world'') ''u1'' None
        emptyDatabase = Some (r, db1) \<and> ir_status r = Failed"
    using e5 by blast
  \<comment> \<open>one chunk, and the vector store throws\<close>
  have c6: "chunkText (pd_content (parsedText ''hello world'')) (chunkingConfig brokenStoreService None)
     = Some ?hello"
    by code_simp
  have o6: "\<not> overfullBatch (svc_embed brokenStoreService) ?hello"
    by code_simp
  have u6: "svc_storeUpsert brokenStoreService records \<noteq> None" for records
    by (simp add: brokenStoreService_def)
  have e6: "ingestDocument brokenStoreService ''doc-1'' (textFile ''hello world'') ''u1'' None emptyDatabase
     = Some (\<lparr>ir_documentId = ''doc-1'', ir_chunksCount = 0, ir_status = Failed,
              ir_errors = Some [''connection refused'']\<rparr>,
             \<lparr>db_chunks = [], db_documents = [documentAfter ''hello world'' FAILED]\<rparr>)"
    by code_simp
  have "ir_status \<lparr>ir_documentId = ''doc-1'', ir_chunksCount = 0, ir_status = Failed,
              ir_errors = Some [''connection refused'']\<rparr> = Failed"
    using ingestion_status [OF e6] p3 fresh c6 ne o6 u6 by blast
  then have s6: "\<exists>r db1. ingestDocument brokenStoreService ''doc-1'' (textFile ''hello world'') ''u1''
        None emptyDatabase = Some (r, db1) \<and> ir_status r = Failed"
    using e6 by blast
  \<comment> \<open>one chunk, embedded\<close>
  have o3: "\<not> overfullBatch (svc_embed workingService) ?hello"
    by code_simp
  have b3: "batchErrorsFrom (svc_embed workingService) ?hello 0 = []"
    by code_simp
  have n3: "length (embeddedFrom (svc_embed workingService) ?hello 0) = 1"
    by code_simp
  have v3: "toVectorRecords ''doc-1'' (parsedText ''hello world'')
              (embeddedFrom (svc_embed workingService) ?hello 0)
            = Inr [toVectorRecord ''doc-1'' (parsedText ''hello world'')
                     (mkChunk ''hello world'' 0 0 11) [Fin 1, Fin 0]]"
    by code_simp
  have u3: "svc_storeUpsert workingService records = None" for records
    by (simp add: workingService_def)
  from ingestDocument_completed [OF p3 fresh c3 ne v3 u3]
  obtain r3 db3 where
    e3: "ingestDocument workingService ''doc-1'' (textFile ''hello world'') ''u1'' None emptyDatabase
           = Some (r3, db3)"
    by blast
  have "ir_status r3 = Success \<and> ir_chunksCount r3 = 1"
    using ingestion_status [OF e3] p3 fresh c3 ne o3 u3 b3 n3 by auto
  then have s3: "\<exists>r db1. ingestDocument workingService ''doc-1'' (textFile ''hello world'') ''u1'' None
        emptyDatabase = Some (r, db1) \<and> ir_status r = Success \<and> ir_chunksCount r = 1"
    using e3 by blast
  \<comment> \<open>101 chunks, the second batch fails\<close>
  have c4: "chunkText (pd_content (parsedText manyWords))
              (chunkingConfig fullBatchService (Some smallWindows)) = Some manyWordChunks"
    by code_simp
  have p4: "src_parsed (textFile manyWords) = Inr (parsedText manyWords)"
    by (simp add: textFile_def)
  have b4: "batchErrorsFrom (svc_embed fullBatchService) manyWordChunks 0
              = [''Embedding batch 2 failed: rate limit'']"
    by code_simp
  have n4: "length (embeddedFrom (svc_embed fullBatchService) manyWordChunks 0) = 100"
    by code_simp
  have o4: "\<not> overfullBatch (svc_embed fullBatchService) manyWordChunks"
    by code_simp
  have v4: "toVectorRecords ''doc-1'' (parsedText manyWords)
              (embeddedFrom (svc_embed fullBatchService) manyWordChunks 0) = Inr manyRecords"
    by code_simp
  have u4: "svc_storeUpsert fullBatchService records = None" for records
    by (simp add: fullBatchService_def)
  have ne4: "manyWordChunks \<noteq> []"
    by code_simp
  from ingestDocument_completed [OF p4 fresh c4 ne4 v4 u4]
  obtain r4 db4 where
    e4: "ingestDocument fullBatchService ''doc-1'' (textFile manyWords) ''u1'' (Some smallWindows)
           emptyDatabase = Some (r4, db4)"
    by blast
  have "ir_status r4 = Partial \<and> ir_chunksCount r4 = 100"
    using ingestion_status [OF e4] p4 fresh c4 ne4 o4 u4 b4 n4 by auto
  then have s4: "\<exists>r db1. ingestDocument fullBatchService ''doc-1'' (textFile manyWords) ''u1''
        (Some smallWindows) emptyDatabase = Some (r, db1) \<and>
       ir_status r = Partial \<and> ir_chunksCount r = 100"
    using e4 by blast
  show ?thesis
    using e1 s1 i0 s0 c2 s2 c3 o5 s5 s6 b3 s3 c4 b4 s4 by blast
qed

section \<open>A failing embedding batch\<close>

text \<open>
  Claim C6 as amended.  When a sub-batch of an \<open>embed(texts)\<close> call fails and the
  sub-batches before it succeeded, the whole call fails with the error of that sub-batch:
  the requests sent are those of the sub-batches up to the failing one, no later
  sub-batch is requested, and the call returns neither the results of the earlier
  sub-batches nor an error list.  The failure is recorded by the caller: the loop of
  \<open>processDocument\<close> over batches of 100 chunks catches the exception of \<open>embed\<close>,
  records \<open>Embedding batch n failed: ...\<close> with the number \<open>n\<close> of its own batch, counted
  from 1, and goes on with the next batch, so that it ends with the embedded chunks of the
  batches that succeeded and the list of the errors of the others.
\<close>

theorem embed_failure_aborts_call:
  "(0 < api_maxBatchSize pv \<and> j * api_maxBatchSize pv < length texts \<and>
    api_request pv (subBatch pv texts j) = Inl err \<and>
    (\<forall>l. l < j \<longrightarrow> (\<exists>response. api_request pv (subBatch pv texts l) = Inr response))
    \<longrightarrow> embed pv texts = Some (map (subBatch pv texts) [0..<Suc j], Inl err)) \<and>
   (documentId \<in> docIds db \<longrightarrow>
      (\<exists>db1. batchLoop embedTexts documentId chunks 0 [] [] db
         = Inr (embeddedFrom embedTexts chunks 0, batchErrorsFrom embedTexts chunks 0, db1)))"
proof (intro conjI impI)
  assume a: "0 < api_maxBatchSize pv \<and> j * api_maxBatchSize pv < length texts \<and>
    api_request pv (subBatch pv texts j) = Inl err \<and>
    (\<forall>l. l < j \<longrightarrow> (\<exists>response. api_request pv (subBatch pv texts l) = Inr response))"
  then have "\<forall>l. 0 \<le> l \<and> l < j \<longrightarrow> (\<exists>response. api_request pv (subBatch pv texts l) = Inr response)"
    by simp
  with a have "embedLoop pv texts (0 * api_maxBatchSize pv) [] []
                 = Some ([] @ map (subBatch pv texts) [0..<Suc j], Inl err)"
    by (intro embedLoop_first_failure) simp_all
  then show "embed pv texts = Some (map (subBatch pv texts) [0..<Suc j], Inl err)"
    by (simp add: embed_def)
next
  assume "documentId \<in> docIds db"
  from batchLoop_closed [OF this, of embedTexts chunks 0 "[]" "[]"]
  show "\<exists>db1. batchLoop embedTexts documentId chunks 0 [] [] db
         = Inr (embeddedFrom embedTexts chunks 0, batchErrorsFrom embedTexts chunks 0, db1)"
    by auto
qed

text \<open>
  Claim C6 as stated: the failure of a sub-batch does not abort the call of \<open>embed\<close>.
  Two calls of the Cohere provider (sub-batches of 96) on 97 texts: when the service
  throws on the first sub-batch, the only request is the first one and the call throws;
  when it throws on the second, both requests are sent and the call throws, without the
  96 results of the first.
\<close>

theorem embed_no_partial_result:
  "embed failsOnFull (replicate 97 ''t'') = Some ([replicate 96 ''t''], Inl ''rate limit'') \<and>
   embed failsOnRest (replicate 97 ''t'')
     = Some ([replicate 96 ''t'', [''t'']], Inl ''rate limit'')"
  by code_simp

text \<open>
  An instance of the theorem for claim C6: the second sub-batch of 97 texts fails; and the
  ingestion loop over 101 chunks with a provider that throws on the second batch.
\<close>

theorem embed_failure_aborts_call_witness:
  "0 < api_maxBatchSize failsOnRest \<and>
   1 * api_maxBatchSize failsOnRest < length (replicate 97 ''t'') \<and>
   api_request failsOnRest (subBatch failsOnRest (replicate 97 ''t'') 1) = Inl ''rate limit'' \<and>
   api_request failsOnRest (subBatch failsOnRest (replicate 97 ''t'') 0)
     = Inr (answerFor (replicate 96 ''t'')) \<and>
   embed failsOnRest (replicate 97 ''t'')
     = Some (map (subBatch failsOnRest (replicate 97 ''t'')) [0..<Suc 1], Inl ''rate limit'') \<and>
   ''doc-1'' \<in> docIds \<lparr>db_chunks = [], db_documents = [documentAfter ''text'' PROCESSING]\<rparr> \<and>
   batchErrorsFrom fullBatchesOnly manyWordChunks 0 = [''Embedding batch 2 failed: rate limit''] \<and>
   length (embeddedFrom fullBatchesOnly manyWordChunks 0) = 100 \<and>
   (\<exists>db1. batchLoop fullBatchesOnly ''doc-1'' manyWordChunks 0 [] []
             \<lparr>db_chunks = [], db_documents = [documentAfter ''text'' PROCESSING]\<rparr>
      = Inr (embeddedFrom fullBatchesOnly manyWordChunks 0,
             batchErrorsFrom fullBatchesOnly manyWordChunks 0, db1))"
proof -
  let ?texts = "replicate 97 ''t''"
  let ?db = "\<lparr>db_chunks = [], db_documents = [documentAfter ''text'' PROCESSING]\<rparr>"
  have m: "0 < api_maxBatchSize failsOnRest"
    by (simp add: failsOnRest_def cohereEmbeddingProvider_def)
  have l: "1 * api_maxBatchSize failsOnRest < length ?texts"
    by (simp add: failsOnRest_def cohereEmbeddingProvider_def)
  have f: "api_request failsOnRest (subBatch failsOnRest ?texts 1) = Inl ''rate limit''"
    by (simp add: failsOnRest_def cohereEmbeddingProvider_def subBatch_def)
  have g: "api_request failsOnRest (subBatch failsOnRest ?texts 0) = Inr (answerFor (replicate 96 ''t''))"
    by (simp add: failsOnRest_def cohereEmbeddingProvider_def subBatch_def)
  have before: "\<forall>l. l < 1 \<longrightarrow> (\<exists>response. api_request failsOnRest (subBatch failsOnRest ?texts l) = Inr response)"
    using g by simp
  have d: "''doc-1'' \<in> docIds ?db"
    by (simp add: docIds_def documentAfter_def)
  have b: "batchErrorsFrom fullBatchesOnly manyWordChunks 0 = [''Embedding batch 2 failed: rate limit'']"
    by code_simp
  have n: "length (embeddedFrom fullBatchesOnly manyWordChunks 0) = 100"
    by code_simp
  note th = embed_failure_aborts_call [of failsOnRest 1 ?texts "''rate limit''" "''doc-1''" ?db
      fullBatchesOnly manyWordChunks]
  have c1: "embed failsOnRest ?texts = Some (map (subBatch failsOnRest ?texts) [0..<Suc 1], Inl ''rate limit'')"
    using th m l f before by blast
  have c2: "\<exists>db1. batchLoop fullBatchesOnly ''doc-1'' manyWordChunks 0 [] [] ?db
      = Inr (embeddedFrom fullBatchesOnly manyWordChunks 0,
             batchErrorsFrom fullBatchesOnly manyWordChunks 0, db1)"
    using th d by blast
  show ?thesis
    using m l f g c1 d b n c2 by blast
qed

section \<open>The pipeline: a transformation without its callback\<close>



lemma fallback_transformed:
  assumes "qo_transformQuery options = Some Hyde \<or> qo_transformQuery options = Some Subquestion"
    and "qo_llmGenerate options = None"
  shows "transformedQueryOf options = Inr (ro_query (qo_retrieval options))"
  using assms by (auto simp: transformedQueryOf_def)

lemma original_transformed:
  "transformedQueryOf (options\<lparr>qo_transformQuery := Some Original\<rparr>) = Inr (ro_query (qo_retrieval options))"
  by (simp add: transformedQueryOf_def)

text \<open>
  Claim C4 as amended.  A call of \<open>query\<close> with \<open>transformQuery\<close> set to \<open>hyde\<close> or
  \<open>subquestion\<close> and no \<open>llmGenerate\<close> callback returns what the same call with
  \<open>original\<close> returns: the retriever is called with the unmodified query, and when the
  call returns a result, its \<open>transformedQuery\<close> is the unmodified query.  The result
  has the fields \<open>ragContext\<close> and \<open>transformedQuery\<close> and no flag for the fallback.
\<close>

theorem fallback_to_original:
  assumes "qo_transformQuery options = Some Hyde \<or> qo_transformQuery options = Some Subquestion"
    and "qo_llmGenerate options = None"
  shows "query pipeline t options = query pipeline t (options\<lparr>qo_transformQuery := Some Original\<rparr>) \<and>
    query pipeline t options =
      (case retrieve pipeline t (qo_retrieval options) of
         Inl err \<Rightarrow> Inl err
       | Inr retrievalResult \<Rightarrow>
           Inr \<lparr>qr_ragContext =
                  buildRagPrompt (retriever_config pipeline) (ro_query (qo_retrieval options))
                    retrievalResult (qo_customSystemPrompt options),
                qr_transformedQuery = ro_query (qo_retrieval options)\<rparr>) \<and>
    (\<forall>r. query pipeline t options = Inr r \<longrightarrow> qr_transformedQuery r = ro_query (qo_retrieval options))"
proof -
  have "(qo_retrieval options)\<lparr>ro_query := ro_query (qo_retrieval options)\<rparr> = qo_retrieval options"
    by simp
  then show ?thesis
    using fallback_transformed [OF assms] original_transformed [of options]
    by (auto simp: query_def split: sum.splits)
qed


lemma scenario_retrieve: "retrieve scenarioRetriever 3 scenarioOptions = Inr scenarioResult"
  by (simp add: eval_retrieve scenarioResult_def)

text \<open>
  Claim C4 as stated: the result carries a flag that signals the fallback.  In the
  scenario the request for \<open>hyde\<close> without the callback and the request for \<open>original\<close>
  return the same result, so that nothing in the result tells the two apart.
\<close>

theorem fallback_without_flag:
  "query scenarioRetriever 3 hydeRequest = query scenarioRetriever 3 originalRequest \<and>
   query scenarioRetriever 3 hydeRequest
     = Inr \<lparr>qr_ragContext = buildRagPrompt defaultRagConfig ''question'' scenarioResult None,
            qr_transformedQuery = ''question''\<rparr>"
proof -
  have q: "(qo_retrieval hydeRequest)\<lparr>ro_query := ''question''\<rparr> = scenarioOptions"
    by (simp add: hydeRequest_def scenarioOptions_def)
  have h: "transformedQueryOf hydeRequest = Inr ''question''"
    by (simp add: transformedQueryOf_def hydeRequest_def scenarioOptions_def)
  have o: "transformedQueryOf originalRequest = Inr ''question''"
    by (simp add: transformedQueryOf_def originalRequest_def hydeRequest_def scenarioOptions_def)
  have c: "retriever_config scenarioRetriever = defaultRagConfig"
    by (simp add: scenarioRetriever_def)
  have qo: "(qo_retrieval originalRequest)\<lparr>ro_query := ''question''\<rparr> = scenarioOptions"
    by (simp add: originalRequest_def hydeRequest_def scenarioOptions_def)
  have f: "qo_customSystemPrompt originalRequest = None" "qo_customSystemPrompt hydeRequest = None"
      "ro_query (qo_retrieval hydeRequest) = ''question''"
      "ro_query (qo_retrieval originalRequest) = ''question''"
    by (simp_all add: originalRequest_def hydeRequest_def scenarioOptions_def)
  have qh: "query scenarioRetriever 3 hydeRequest
     = Inr \<lparr>qr_ragContext = buildRagPrompt defaultRagConfig ''question'' scenarioResult None,
            qr_transformedQuery = ''question''\<rparr>"
    by (simp add: query_def h q c f scenario_retrieve)
  have qq: "query scenarioRetriever 3 originalRequest
     = Inr \<lparr>qr_ragContext = buildRagPrompt defaultRagConfig ''question'' scenarioResult None,
            qr_transformedQuery = ''question''\<rparr>"
    by (simp add: query_def o qo c f scenario_retrieve)
  show ?thesis
    using qh qq by simp
qed

text \<open>
  An instance of the theorem for claim C4: the request for \<open>hyde\<close> without the callback
  in the scenario.
\<close>

theorem fallback_to_original_witness:
  "qo_transformQuery hydeRequest = Some Hyde \<and> qo_llmGenerate hydeRequest = None \<and>
   query scenarioRetriever 3 hydeRequest
     = query scenarioRetriever 3 (hydeRequest\<lparr>qo_transformQuery := Some Original\<rparr>) \<and>
   retrieve scenarioRetriever 3 (qo_retrieval hydeRequest) = Inr scenarioResult \<and>
   query scenarioRetriever 3 hydeRequest
     = Inr \<lparr>qr_ragContext = buildRagPrompt (retriever_config scenarioRetriever)
                             (ro_query (qo_retrieval hydeRequest)) scenarioResult
                             (qo_customSystemPrompt hydeRequest),
            qr_transformedQuery = ro_query (qo_retrieval hydeRequest)\<rparr> \<and>
   ro_query (qo_retrieval hydeRequest) = ''question''"
proof -
  have t: "qo_transformQuery hydeRequest = Some Hyde"
    by (simp add: hydeRequest_def)
  have l: "qo_llmGenerate hydeRequest = None"
    by (simp add: hydeRequest_def)
  have r: "retrieve scenarioRetriever 3 (qo_retrieval hydeRequest) = Inr scenarioResult"
    using scenario_retrieve by (simp add: hydeRequest_def)
  have n: "ro_query (qo_retrieval hydeRequest) = ''question''"
    by (simp add: hydeRequest_def scenarioOptions_def)
  from t have d: "qo_transformQuery hydeRequest = Some Hyde \<or> qo_transformQuery hydeRequest = Some Subquestion"
    by simp
  note th = fallback_to_original [OF d l, of scenarioRetriever 3]
  have a1: "query scenarioRetriever 3 hydeRequest
          = query scenarioRetriever 3 (hydeRequest\<lparr>qo_transformQuery := Some Original\<rparr>)"
    using th by (rule conjunct1)
  have a2: "query scenarioRetriever 3 hydeRequest
     = Inr \<lparr>qr_ragContext = buildRagPrompt (retriever_config scenarioRetriever)
                             (ro_query (qo_retrieval hydeRequest)) scenarioResult
                             (qo_customSystemPrompt hydeRequest),
            qr_transformedQuery = ro_query (qo_retrieval hydeRequest)\<rparr>"
    using th [THEN conjunct2, THEN conjunct1] by (simp add: r)
  show ?thesis
    using t l r n a1 a2 by blast
qed

end
